theory Spec2Isabelle
  imports Complex_Main
begin

section \<open>Data model\<close>

text \<open>
  The values the client holds where the source says \<open>any\<close> (src/types.ts:
  \<open>params: Record<string, any>\<close>, \<open>result: any\<close>; session-manager: \<open>data: any\<close>): what
  \<open>JSON.parse\<close> makes of a peer's message and what the client builds from it. A number is a
  finite value or one of \<open>Infinity\<close>, \<open>-Infinity\<close>, \<open>NaN\<close> (\<open>JSON.parse\<close> gives an infinity
  for a numeral beyond the range of a double, such as \<open>1e400\<close>); the sign of zero is not
  kept. An object is the list of its own properties in the order in which they are
  enumerated, the order \<open>JSON.stringify\<close> writes and \<open>JSON.parse\<close> restores; no key
  occurs twice in the list of an object. The JavaScript value
  \<open>undefined\<close> is not among these values: a property read that yields \<open>undefined\<close> is
  \<open>None\<close>.
\<close>

datatype number = Finite rat | PosInfinity | NegInfinity | NaN

datatype json =
    JNull
  | JBool bool
  | JNum number
  | JStr string
  | JArr "json list"
  | JObj "(string \<times> json) list"

text \<open>JavaScript truthiness, as used by \<open>||\<close>, \<open>!\<close> and \<open>if\<close>.\<close>

fun truthy :: "json \<Rightarrow> bool" where
  "truthy JNull = False"
| "truthy (JBool b) = b"
| "truthy (JNum (Finite q)) = (q \<noteq> 0)"
| "truthy (JNum PosInfinity) = True"
| "truthy (JNum NegInfinity) = True"
| "truthy (JNum NaN) = False"
| "truthy (JStr s) = (s \<noteq> [])"
| "truthy (JArr xs) = True"
| "truthy (JObj kvs) = True"

text \<open>\<open>v.k\<close> for the property names the client reads (\<open>path\<close>, \<open>content\<close>, \<open>command\<close>,
  \<open>args\<close>, \<open>sessionId\<close>): only an object has them.\<close>

fun get_prop :: "json \<Rightarrow> string \<Rightarrow> json option" where
  "get_prop (JObj kvs) k = map_of kvs k"
| "get_prop v k = None"

text \<open>\<open>x || d\<close> where \<open>x\<close> may be \<open>undefined\<close>.\<close>

fun or_else :: "json option \<Rightarrow> json \<Rightarrow> json" where
  "or_else None d = d"
| "or_else (Some v) d = (if truthy v then v else d)"

text \<open>An object literal \<open>{k1: e1, ...}\<close> some of whose values may be \<open>undefined\<close>:
  \<open>JSON.stringify\<close> leaves such properties out, and so does the model.\<close>

fun obj :: "(string \<times> json option) list \<Rightarrow> (string \<times> json) list" where
  "obj [] = []"
| "obj ((k, None) # kvs) = obj kvs"
| "obj ((k, Some v) # kvs) = (k, v) # obj kvs"

text \<open>src/types.ts: \<open>JSONRPCMessage\<close>, \<open>JSONRPCError\<close>. \<open>id: number | string\<close>; an inbound
  notification has none.\<close>

datatype rpc_id = IdNum int | IdStr string

record JSONRPCError =
  code :: int
  message :: string

record JSONRPCMessage =
  rpc_id :: "rpc_id option"
  rpc_method :: "string option"
  rpc_params :: "json option"
  rpc_result :: "json option"
  rpc_error :: "JSONRPCError option"

text \<open>src/types.ts: \<open>ToolResult\<close>.\<close>

record ToolResult =
  success :: "bool option"
  content :: "string option"
  entries :: "(string \<times> bool) list option"
  error :: "string option"
  exitCode :: "int option"
  stdout :: "string option"
  stderr :: "string option"
  path :: "string option"

text \<open>src/session-manager: \<open>SessionData\<close> and its history entries.\<close>

datatype entry_type = prompt | tool_call | tool_result

record HistoryEntry =
  entry_type :: entry_type
  entry_data :: json
  entry_timestamp :: string

record SessionData =
  sd_sessionId :: string
  sd_model :: string
  sd_workspaceDir :: string
  sd_timestamp :: string
  sd_history :: "HistoryEntry list"

text \<open>
  What a JSON text denotes: the content of a session file as \<open>JSON.stringify\<close> writes it
  and \<open>JSON.parse\<close> reads it. JSON has numerals for finite numbers only.
\<close>

datatype document =
    DNull
  | DBool bool
  | DNum rat
  | DStr string
  | DArr "document list"
  | DObj "(string \<times> document) list"

text \<open>\<open>JSON.stringify\<close> on a value: a non-finite number is written as \<open>null\<close>.\<close>

primrec JSON_stringify :: "json \<Rightarrow> document" where
  "JSON_stringify JNull = DNull"
| "JSON_stringify (JBool b) = DBool b"
| "JSON_stringify (JNum n) = (case n of Finite q \<Rightarrow> DNum q | _ \<Rightarrow> DNull)"
| "JSON_stringify (JStr s) = DStr s"
| "JSON_stringify (JArr xs) = DArr (map JSON_stringify xs)"
| "JSON_stringify (JObj kvs) = DObj (map (map_prod id JSON_stringify) kvs)"

text \<open>\<open>JSON.parse\<close> on the text of a document whose numerals are within the range of a
  double and whose objects repeat no key, as those \<open>JSON.stringify\<close> wrote are.\<close>

primrec JSON_parse :: "document \<Rightarrow> json" where
  "JSON_parse DNull = JNull"
| "JSON_parse (DBool b) = JBool b"
| "JSON_parse (DNum q) = JNum (Finite q)"
| "JSON_parse (DStr s) = JStr s"
| "JSON_parse (DArr xs) = JArr (map JSON_parse xs)"
| "JSON_parse (DObj kvs) = JObj (map (map_prod id JSON_parse) kvs)"


text \<open>A \<open>SessionData\<close> value as the object it is in the program, and an object read under
  the type \<open>SessionData\<close>, which \<open>loadSession\<close> gives to what \<open>JSON.parse\<close> returns.\<close>

fun type_name :: "entry_type \<Rightarrow> string" where
  "type_name prompt = ''prompt''"
| "type_name tool_call = ''tool_call''"
| "type_name tool_result = ''tool_result''"

definition entry_json :: "HistoryEntry \<Rightarrow> json" where
  "entry_json h =
     JObj [(''type'', JStr (type_name (entry_type h))), (''data'', entry_data h),
           (''timestamp'', JStr (entry_timestamp h))]"

definition session_json :: "SessionData \<Rightarrow> json" where
  "session_json d =
     JObj [(''sessionId'', JStr (sd_sessionId d)), (''model'', JStr (sd_model d)),
           (''workspaceDir'', JStr (sd_workspaceDir d)), (''timestamp'', JStr (sd_timestamp d)),
           (''history'', JArr (map entry_json (sd_history d)))]"

definition as_entry_type :: "string \<Rightarrow> entry_type option" where
  "as_entry_type x =
     (if x = ''prompt'' then Some prompt
      else if x = ''tool_call'' then Some tool_call
      else if x = ''tool_result'' then Some tool_result
      else None)"

definition as_entry :: "json \<Rightarrow> HistoryEntry option" where
  "as_entry v =
     (case (get_prop v ''type'', get_prop v ''data'', get_prop v ''timestamp'') of
        (Some (JStr ty), Some dat, Some (JStr ts)) \<Rightarrow>
          map_option (\<lambda>k. \<lparr>entry_type = k, entry_data = dat, entry_timestamp = ts\<rparr>)
            (as_entry_type ty)
      | _ \<Rightarrow> None)"

definition as_SessionData :: "json \<Rightarrow> SessionData option" where
  "as_SessionData v =
     (case (get_prop v ''sessionId'', get_prop v ''model'', get_prop v ''workspaceDir'',
            get_prop v ''timestamp'', get_prop v ''history'') of
        (Some (JStr sid), Some (JStr m), Some (JStr w), Some (JStr ts), Some (JArr hs)) \<Rightarrow>
          map_option
            (\<lambda>h. \<lparr>sd_sessionId = sid, sd_model = m, sd_workspaceDir = w, sd_timestamp = ts,
                  sd_history = h\<rparr>)
            (those (map as_entry hs))
      | _ \<Rightarrow> None)"

text \<open>What becomes of a history entry, and of a session, written with
  \<open>JSON.stringify\<close> and read back with \<open>JSON.parse\<close>.\<close>

definition reread_entry :: "HistoryEntry \<Rightarrow> HistoryEntry" where
  "reread_entry h = h\<lparr>entry_data := JSON_parse (JSON_stringify (entry_data h))\<rparr>"

definition reread :: "SessionData \<Rightarrow> SessionData" where
  "reread d = d\<lparr>sd_history := map reread_entry (sd_history d)\<rparr>"

text \<open>src/utils.ts: \<open>LogType\<close>.\<close>

datatype LogType = PROMPT | TOOL_CALL | TOOL_RESULT | TOOL_ERROR | INFO | ERROR

text \<open>A call of a tool collaborator (src/tools), with the arguments handed to it.\<close>

datatype tool_exec =
    WriteFileCall "json option" "json option"
  | ReadFileCall "json option"
  | ListDirCall json
  | RunShellCall "json option" "json list"

text \<open>
  What the surroundings answer during one operation: what \<open>await inquirer.prompt\<close> yields
  (\<open>Inr\<close>: the operator's decision; \<open>Inl\<close>: the promise is rejected, as when the prompt is
  closed, with the message of the error), what the tool collaborator returns (\<open>Inl\<close>: it
  threw), the readings of the clock, and whether the file-system calls of the session store
  succeed.
\<close>

record env =
  approved :: "string + bool"
  outcome :: "string + ToolResult"
  now_ms :: nat
  t_entry :: string
  t_result :: string
  t_save :: string
  mkdir_ok :: bool
  write_ok :: bool
  read_ok :: bool

text \<open>
  The fields of \<open>CodingAgentClient\<close> (client.ts:17-25) and, below them, the world the client
  acts on: the writable stream of the transport (\<open>posted\<close>: the chunks handed to its sink, in
  order; \<open>locked\<close>: a writer holds the stream), the writes a drain has issued and is awaiting
  (\<open>suspended\<close>), the messages whose write was given up at the \<open>catch\<close> of
  \<open>processWriteQueue\<close> (\<open>dropped\<close>), the session files on disk, the collaborator calls made
  and the kinds of the audit-log entries. \<open>outbox\<close> is a history variable: every message
  pushed on \<open>writeQueue\<close>, in push order.
\<close>

record state =
  sessionId :: "string option"
  requestId :: nat
  writeQueue :: "JSONRPCMessage list"
  isWriting :: bool
  model :: string
  workspaceDir :: string
  history :: "HistoryEntry list"
  autoSave :: bool
  posted :: "JSONRPCMessage list"
  locked :: bool
  suspended :: "JSONRPCMessage list"
  dropped :: "JSONRPCMessage list"
  outbox :: "JSONRPCMessage list"
  sessions_dir :: bool
  files :: "string \<rightharpoonup> document"
  executed :: "tool_exec list"
  audit :: "LogType list"

section \<open>Outbound serializer (client.ts:276-334)\<close>

text \<open>
  The \<open>while\<close> loop of \<open>processWriteQueue\<close>, from its head to the point where it suspends at
  \<open>await writer.write(msg)\<close> or leaves the loop. \<open>getWriter()\<close> throws on a locked stream;
  the \<open>catch\<close> logs and the loop goes on with the next message. A queued message is an
  object, hence truthy: \<open>if (!msg) continue\<close> never fires.
\<close>

fun drain_loop :: "JSONRPCMessage list \<Rightarrow> state \<Rightarrow> state" where
  "drain_loop [] s = s\<lparr>writeQueue := [], isWriting := False\<rparr>"
| "drain_loop (m # q) s =
     (if locked s then drain_loop q (s\<lparr>dropped := dropped s @ [m]\<rparr>)
      else s\<lparr>writeQueue := q, locked := True, posted := posted s @ [m],
             suspended := suspended s @ [m]\<rparr>)"

text \<open>A call of \<open>processWriteQueue\<close> up to its first suspension (or its return).\<close>

definition processWriteQueue_start :: "state \<Rightarrow> state" where
  "processWriteQueue_start s =
     (if isWriting s then s else drain_loop (writeQueue s) (s\<lparr>isWriting := True\<rparr>))"

text \<open>
  The awaited write settles and the drain resumes: fulfilled (\<open>ok\<close>), the lock is released;
  rejected, control goes to the \<open>catch\<close> and \<open>releaseLock\<close> is skipped. Then the loop goes on.
\<close>

definition write_settled :: "bool \<Rightarrow> state \<Rightarrow> state" where
  "write_settled ok s =
     (case suspended s of
        [] \<Rightarrow> s
      | m # rest \<Rightarrow>
          (let s1 = s\<lparr>suspended := rest, locked := (if ok then False else locked s)\<rparr>
           in drain_loop (writeQueue s1) s1))"

text \<open>
  \<open>await this.processWriteQueue()\<close> seen from the caller, with nothing else scheduled while
  it waits and a stream whose writes are fulfilled (the sink of \<open>createSSEStream\<close>,
  transport.ts:38-53, catches every failure of its \<open>fetch\<close>): the drain this call started is
  resumed until it has left its loop.
\<close>

function complete :: "state \<Rightarrow> state" where
  "complete s = (if suspended s = [] then s else complete (write_settled True s))"
  by pat_completeness auto
termination
proof (relation "measure (\<lambda>s. length (writeQueue s) + length (suspended s))")
  show "wf (measure (\<lambda>s. length (writeQueue s) + length (suspended s)))"
    by simp
next
  fix s :: state
  assume "suspended s \<noteq> []"
  then obtain m rest where sus: "suspended s = m # rest"
    by (cases "suspended s") auto
  show "(write_settled True s, s) \<in> measure (\<lambda>s. length (writeQueue s) + length (suspended s))"
    using sus by (cases "writeQueue s") (simp_all add: write_settled_def)
qed

declare complete.simps [simp del]

definition processWriteQueue :: "state \<Rightarrow> state" where
  "processWriteQueue s = (if isWriting s then s else complete (processWriteQueue_start s))"

text \<open>The message \<open>sendRPC\<close> builds (client.ts:302-307) and the one \<open>sendRPCResponse\<close>
  builds (client.ts:326-330): \<open>error ? { error } : { result }\<close>.\<close>

definition request :: "nat \<Rightarrow> string \<Rightarrow> json \<Rightarrow> JSONRPCMessage" where
  "request n method params =
     \<lparr>rpc_id = Some (IdNum (int n)), rpc_method = Some method, rpc_params = Some params,
      rpc_result = None, rpc_error = None\<rparr>"

definition response :: "rpc_id option \<Rightarrow> json \<Rightarrow> JSONRPCError option \<Rightarrow> JSONRPCMessage" where
  "response i res err =
     \<lparr>rpc_id = i, rpc_method = None, rpc_params = None,
      rpc_result = (case err of None \<Rightarrow> Some res | Some e \<Rightarrow> None), rpc_error = err\<rparr>"

definition push :: "JSONRPCMessage \<Rightarrow> state \<Rightarrow> state" where
  "push m s = s\<lparr>writeQueue := writeQueue s @ [m], outbox := outbox s @ [m]\<rparr>"

text \<open>\<open>sendRPC\<close> and \<open>sendRPCResponse\<close> up to their call of \<open>processWriteQueue\<close>:
  \<open>id: this.requestId++\<close> takes the old value and increments the counter.\<close>

definition enqueue_request :: "string \<Rightarrow> json \<Rightarrow> state \<Rightarrow> state" where
  "enqueue_request method params s =
     push (request (requestId s) method params) (s\<lparr>requestId := Suc (requestId s)\<rparr>)"

definition enqueue_response :: "rpc_id option \<Rightarrow> json \<Rightarrow> JSONRPCError option \<Rightarrow> state \<Rightarrow> state" where
  "enqueue_response i res err s = push (response i res err) s"

text \<open>\<open>sendRPC\<close> returns \<open>null\<close> whatever the peer answers (client.ts:312).\<close>

definition sendRPC :: "string \<Rightarrow> json \<Rightarrow> state \<Rightarrow> json \<times> state" where
  "sendRPC method params s = (JNull, processWriteQueue (enqueue_request method params s))"

definition sendRPCResponse :: "rpc_id option \<Rightarrow> json \<Rightarrow> JSONRPCError option \<Rightarrow> state \<Rightarrow> state" where
  "sendRPCResponse i res err s = processWriteQueue (enqueue_response i res err s)"

section \<open>Audit log and session store (utils.ts, session-manager)\<close>

text \<open>\<open>logReceipt\<close> appends one entry to session.log and swallows a failure of the write;
  the model keeps the kind of the entry.\<close>

definition logReceipt :: "LogType \<Rightarrow> state \<Rightarrow> state" where
  "logReceipt t s = s\<lparr>audit := audit s @ [t]\<rparr>"

definition SESSIONS_DIR :: string where
  "SESSIONS_DIR = ''.acp-sessions''"

text \<open>\<open>join(SESSIONS_DIR, `${sessionId}.json`)\<close>; the normalisation \<open>join\<close> does on an id
  with \<open>..\<close> or \<open>/\<close> segments is not modelled.\<close>

definition session_path :: "string \<Rightarrow> string" where
  "session_path sid = SESSIONS_DIR @ ''/'' @ sid @ ''.json''"

text \<open>
  \<open>saveSession\<close>: a failing \<open>mkdir\<close> or \<open>writeFile\<close> is caught and logged; the file
  holds the text \<open>JSON.stringify(data, null, 2)\<close>, taken here as the document it denotes.
\<close>

definition saveSession :: "env \<Rightarrow> string \<Rightarrow> SessionData \<Rightarrow> state \<Rightarrow> state" where
  "saveSession e sid d s =
     (if \<not> sessions_dir s \<and> \<not> mkdir_ok e then s
      else
        (let s1 = s\<lparr>sessions_dir := True\<rparr>
         in if write_ok e
            then s1\<lparr>files := (files s1)(session_path sid \<mapsto> JSON_stringify (session_json d))\<rparr>
            else s1))"

text \<open>
  \<open>loadSession\<close>: \<open>null\<close> when the file does not exist or reading it fails; else
  \<open>JSON.parse(content)\<close>, returned under the type \<open>SessionData\<close> without a check. A file
  that does not hold an object of that type (none is written by \<open>saveSession\<close>) is outside
  the type; the model answers \<open>None\<close> for it.
\<close>

definition loadSession :: "env \<Rightarrow> string \<Rightarrow> state \<Rightarrow> SessionData option" where
  "loadSession e sid s =
     (case files s (session_path sid) of
        None \<Rightarrow> None
      | Some doc \<Rightarrow> (if read_ok e then as_SessionData (JSON_parse doc) else None))"

section \<open>The client (client.ts)\<close>

text \<open>\<open>!this.sessionId\<close>: \<open>undefined\<close> and the empty string are falsy.\<close>

fun no_session :: "string option \<Rightarrow> bool" where
  "no_session None = True"
| "no_session (Some sid) = (sid = [])"

definition persistSession :: "env \<Rightarrow> state \<Rightarrow> state" where
  "persistSession e s =
     (if \<not> autoSave s then s
      else
        (case sessionId s of
           None \<Rightarrow> s
         | Some sid \<Rightarrow>
             (if sid = [] then s
              else saveSession e sid
                     \<lparr>sd_sessionId = sid, sd_model = model s, sd_workspaceDir = workspaceDir s,
                      sd_timestamp = t_save e, sd_history = history s\<rparr> s)))"

definition resumeSession :: "env \<Rightarrow> string \<Rightarrow> state \<Rightarrow> bool \<times> state" where
  "resumeSession e sid s =
     (case loadSession e sid s of
        None \<Rightarrow> (False, s)
      | Some d \<Rightarrow>
          (True, logReceipt INFO
                   (s\<lparr>sessionId := Some (sd_sessionId d), model := sd_model d,
                      workspaceDir := sd_workspaceDir d, history := sd_history d\<rparr>)))"

text \<open>src/types.ts: \<open>TOOL_METHODS\<close> and \<open>matchesTool\<close>.\<close>

definition WRITE_FILE :: "string list" where
  "WRITE_FILE = [''writeTextFile'', ''fs/writeTextFile'', ''fs.writeTextFile'']"

definition READ_FILE :: "string list" where
  "READ_FILE = [''readTextFile'', ''fs/readTextFile'', ''fs.readTextFile'']"

definition LIST_DIRECTORY :: "string list" where
  "LIST_DIRECTORY = [''listDirectory'', ''fs/listDirectory'', ''fs.listDirectory'']"

definition CREATE_TERMINAL :: "string list" where
  "CREATE_TERMINAL = [''createTerminal'', ''terminal/create'', ''terminal.create'']"

definition matchesTool :: "string \<Rightarrow> string list \<Rightarrow> bool" where
  "matchesTool method toolMethods = (method \<in> set toolMethods)"

text \<open>The history entries the client pushes (client.ts:141-145, 178-182, 257-261).\<close>

definition tool_call_entry :: "env \<Rightarrow> string \<Rightarrow> json \<Rightarrow> HistoryEntry" where
  "tool_call_entry e toolName params =
     \<lparr>entry_type = tool_call,
      entry_data = JObj [(''tool'', JStr toolName), (''params'', params)],
      entry_timestamp = t_entry e\<rparr>"

definition tool_result_entry :: "env \<Rightarrow> string \<Rightarrow> HistoryEntry" where
  "tool_result_entry e toolName =
     \<lparr>entry_type = tool_result,
      entry_data = JObj [(''tool'', JStr toolName), (''result'', JObj [(''success'', JBool True)])],
      entry_timestamp = t_result e\<rparr>"

definition prompt_entry :: "env \<Rightarrow> string \<Rightarrow> HistoryEntry" where
  "prompt_entry e txt =
     \<lparr>entry_type = prompt, entry_data = JStr txt, entry_timestamp = t_entry e\<rparr>"

text \<open>\<open>if (result.error) throw new Error(result.error)\<close> after a collaborator returned;
  \<open>Inl\<close> is the message of the error thrown.\<close>

fun checked :: "string + ToolResult \<Rightarrow> string + ToolResult" where
  "checked (Inl m) = Inl m"
| "checked (Inr r) =
     (case error r of
        None \<Rightarrow> Inr r
      | Some m \<Rightarrow> (if m = [] then Inr r else Inl m))"

text \<open>Whether the collaborator's result passes that check.\<close>

fun tool_ok :: "string + ToolResult \<Rightarrow> bool" where
  "tool_ok (Inl m) = False"
| "tool_ok (Inr r) = True"

text \<open>The message of the \<open>TypeError\<close> raised by \<open>(params.args || []).join(" ")\<close> when
  \<open>params.args\<close> is truthy and no array; its wording is the engine's.\<close>

definition join_type_error :: string where
  "join_type_error = ''(params.args || []).join is not a function''"

definition entries_json :: "(string \<times> bool) list \<Rightarrow> json" where
  "entries_json es = JArr (map (\<lambda>(n, d). JObj [(''name'', JStr n), (''isDirectory'', JBool d)]) es)"

text \<open>
  The \<open>try\<close> block of \<open>handleToolCall\<close> (client.ts:170-230): the state it leaves, and the
  message of the error it threw, if any.
\<close>

definition run_tool :: "env \<Rightarrow> string \<Rightarrow> rpc_id option \<Rightarrow> json \<Rightarrow> state \<Rightarrow> state \<times> string option" where
  "run_tool e toolName rid params s =
     (if toolName = ''writeTextFile'' then
        (let s1 = s\<lparr>executed := executed s @
                    [WriteFileCall (get_prop params ''path'') (get_prop params ''content'')]\<rparr>
         in case checked (outcome e) of
              Inl m \<Rightarrow> (s1, Some m)
            | Inr r \<Rightarrow>
                (sendRPCResponse rid (JObj []) None
                   (logReceipt TOOL_RESULT
                      (s1\<lparr>history := history s1 @ [tool_result_entry e toolName]\<rparr>)), None))
      else if toolName = ''readTextFile'' then
        (let s1 = s\<lparr>executed := executed s @ [ReadFileCall (get_prop params ''path'')]\<rparr>
         in case checked (outcome e) of
              Inl m \<Rightarrow> (s1, Some m)
            | Inr r \<Rightarrow>
                (sendRPCResponse rid (JObj (obj [(''content'', map_option JStr (content r))])) None
                   (logReceipt TOOL_RESULT s1), None))
      else if toolName = ''listDirectory'' then
        (let s1 = s\<lparr>executed := executed s @
                    [ListDirCall (or_else (get_prop params ''path'') (JStr ''.''))]\<rparr>
         in case checked (outcome e) of
              Inl m \<Rightarrow> (s1, Some m)
            | Inr r \<Rightarrow>
                (sendRPCResponse rid
                   (JObj (obj [(''entries'', map_option entries_json (entries r))])) None
                   (logReceipt TOOL_RESULT s1), None))
      else if toolName = ''createTerminal'' then
        (case or_else (get_prop params ''args'') (JArr []) of
           JArr args \<Rightarrow>
             (let s1 = s\<lparr>executed := executed s @
                         [RunShellCall (get_prop params ''command'') args]\<rparr>
              in case outcome e of
                   Inl m \<Rightarrow> (s1, Some m)
                 | Inr r \<Rightarrow>
                     (sendRPCResponse rid
                        (JObj (obj [(''id'', Some (JStr ''terminal-1'')),
                                    (''exitCode'', map_option (\<lambda>c. JNum (Finite (of_int c))) (exitCode r)),
                                    (''stdout'', map_option JStr (stdout r)),
                                    (''stderr'', map_option JStr (stderr r))])) None
                        (logReceipt TOOL_RESULT s1), None))
         | _ \<Rightarrow> (s, Some join_type_error))
      else (s, Some (''Unknown tool: '' @ toolName)))"

text \<open>
  \<open>handleToolCall\<close>: the state it leaves and the message of the error it throws, if
  any. \<open>await inquirer.prompt\<close> (client.ts:149-156) stands before the \<open>try\<close>: when that
  promise is rejected the error leaves \<open>handleToolCall\<close> and \<open>handleMessage\<close> and reaches
  the \<open>catch\<close> of \<open>readMessages\<close>, which logs it and ends the reading.
\<close>

definition handleToolCall :: "env \<Rightarrow> string \<Rightarrow> rpc_id option \<Rightarrow> json \<Rightarrow> state \<Rightarrow> state \<times> string option" where
  "handleToolCall e toolName rid params s =
     (let s1 = logReceipt TOOL_CALL
                 (s\<lparr>history := history s @ [tool_call_entry e toolName params]\<rparr>)
      in case approved e of
           Inl m \<Rightarrow> (s1, Some m)
         | Inr ok \<Rightarrow>
             (if \<not> ok then
                (sendRPCResponse rid JNull
                   (Some \<lparr>code = - 32000, message = ''User rejected tool call''\<rparr>)
                   (logReceipt TOOL_ERROR s1), None)
              else
                (persistSession e
                   (case run_tool e toolName rid params s1 of
                      (s2, None) \<Rightarrow> s2
                    | (s2, Some m) \<Rightarrow>
                        sendRPCResponse rid JNull (Some \<lparr>code = - 32603, message = m\<rparr>)
                          (logReceipt TOOL_ERROR s2)), None)))"

text \<open>\<open>handleMessage\<close> on a message whose \<open>method\<close> is falsy (client.ts:100-105).\<close>

definition handle_no_method :: "JSONRPCMessage \<Rightarrow> state \<Rightarrow> state" where
  "handle_no_method msg s =
     (case rpc_result msg of
        None \<Rightarrow> s
      | Some r \<Rightarrow> (if truthy r then logReceipt INFO s else s))"

definition handleMessage :: "env \<Rightarrow> JSONRPCMessage \<Rightarrow> state \<Rightarrow> state \<times> string option" where
  "handleMessage e msg s =
     (case rpc_method msg of
        None \<Rightarrow> (handle_no_method msg s, None)
      | Some m \<Rightarrow>
          (if m = [] then (handle_no_method msg s, None)
           else if matchesTool m WRITE_FILE then
             handleToolCall e ''writeTextFile'' (rpc_id msg) (or_else (rpc_params msg) (JObj [])) s
           else if matchesTool m READ_FILE then
             handleToolCall e ''readTextFile'' (rpc_id msg) (or_else (rpc_params msg) (JObj [])) s
           else if matchesTool m LIST_DIRECTORY then
             handleToolCall e ''listDirectory'' (rpc_id msg) (or_else (rpc_params msg) (JObj [])) s
           else if matchesTool m CREATE_TERMINAL then
             handleToolCall e ''createTerminal'' (rpc_id msg) (or_else (rpc_params msg) (JObj [])) s
           else (s, None)))"


text \<open>The decimal numeral of a number, as a template literal renders \<open>Date.now()\<close>.\<close>

definition digit :: "nat \<Rightarrow> char" where
  "digit d = ''0123456789'' ! d"

fun dec :: "nat \<Rightarrow> string" where
  "dec n = (if n < 10 then [digit n] else dec (n div 10) @ [digit (n mod 10)])"

declare dec.simps [simp del]

text \<open>\<open>sessionResp?.sessionId || `session-${Date.now()}`\<close> (client.ts:254). The field
  \<open>sessionId\<close> is declared a string; a truthy value of another type is outside the model.\<close>

fun adopt :: "json \<Rightarrow> nat \<Rightarrow> string" where
  "adopt sessionResp now =
     (case get_prop sessionResp ''sessionId'' of
        Some (JStr sid) \<Rightarrow> (if sid = [] then ''session-'' @ dec now else sid)
      | _ \<Rightarrow> ''session-'' @ dec now)"

definition prompt_params :: "string \<Rightarrow> json" where
  "prompt_params txt =
     JObj [(''prompt'', JObj [(''role'', JStr ''user''),
                              (''content'', JArr [JObj [(''type'', JStr ''text''),
                                                        (''text'', JStr txt)]])])]"

definition sendPrompt :: "env \<Rightarrow> string \<Rightarrow> state \<Rightarrow> state" where
  "sendPrompt e txt s =
     (let s1 = logReceipt PROMPT s;
          s2 = (if no_session (sessionId s1) then
                  (case sendRPC ''session/new'' (JObj []) s1 of
                     (sessionResp, s') \<Rightarrow> s'\<lparr>sessionId := Some (adopt sessionResp (now_ms e))\<rparr>)
                else s1);
          s3 = s2\<lparr>history := history s2 @ [prompt_entry e txt]\<rparr>;
          s4 = snd (sendRPC ''session/prompt'' (prompt_params txt) s3)
      in persistSession e s4)"

definition initialize_params :: "state \<Rightarrow> json" where
  "initialize_params s =
     JObj [(''capabilities'', JObj [(''fs.readTextFile'', JBool True),
                                    (''fs.writeTextFile'', JBool True),
                                    (''fs.listDirectory'', JBool True),
                                    (''terminal'', JBool True)]),
           (''clientInfo'', JObj [(''name'', JStr ''SouthBridgeClient''),
                                  (''version'', JStr ''1.0.0'')]),
           (''workspaceDirectory'', JStr (workspaceDir s)),
           (''model'', JStr (model s))]"

text \<open>\<open>startSession\<close>: a fresh transport (its writable stream unlocked), then the handshake.\<close>

definition startSession :: "state \<Rightarrow> state" where
  "startSession s =
     (let s1 = s\<lparr>locked := False\<rparr>
      in logReceipt INFO (snd (sendRPC ''initialize'' (initialize_params s1) s1)))"

definition setModel :: "string \<Rightarrow> state \<Rightarrow> state" where
  "setModel m s = s\<lparr>model := m\<rparr>"

definition setWorkspaceDir :: "string \<Rightarrow> state \<Rightarrow> state" where
  "setWorkspaceDir w s = s\<lparr>workspaceDir := w\<rparr>"

definition setAutoSave :: "bool \<Rightarrow> state \<Rightarrow> state" where
  "setAutoSave enabled s = s\<lparr>autoSave := enabled\<rparr>"

text \<open>
  The constructor (client.ts:33-40) over a given disk: \<open>model || "claude-3-5-sonnet-20241022"\<close>,
  \<open>workspaceDir || process.cwd()\<close>; nothing has been sent, run or logged.
\<close>

fun or_default :: "string option \<Rightarrow> string \<Rightarrow> string" where
  "or_default None d = d"
| "or_default (Some x) d = (if x = [] then d else x)"

definition new_client :: "string option \<Rightarrow> string option \<Rightarrow> string \<Rightarrow> bool \<Rightarrow> (string \<rightharpoonup> document) \<Rightarrow> state" where
  "new_client m w cwd dir fs =
     \<lparr>sessionId = None, requestId = 0, writeQueue = [], isWriting = False,
      model = or_default m ''claude-3-5-sonnet-20241022'', workspaceDir = or_default w cwd,
      history = [], autoSave = True,
      posted = [], locked = False, suspended = [], dropped = [], outbox = [],
      sessions_dir = dir, files = fs, executed = [], audit = []\<rparr>"

section \<open>Runs\<close>

text \<open>
  The serializer under arbitrary scheduling: a call of \<open>sendRPC\<close> or \<open>sendRPCResponse\<close> runs
  up to the first suspension of \<open>processWriteQueue\<close>; the settling of the awaited write is an
  event of its own, so that further calls may come while a drain is suspended.
\<close>

datatype event =
    SendRPC string json
  | SendRPCResponse "rpc_id option" json "JSONRPCError option"
  | WriteSettled bool

fun step :: "event \<Rightarrow> state \<Rightarrow> state" where
  "step (SendRPC method params) s = processWriteQueue_start (enqueue_request method params s)"
| "step (SendRPCResponse i res err) s = processWriteQueue_start (enqueue_response i res err s)"
| "step (WriteSettled ok) s = write_settled ok s"

fun steps :: "event list \<Rightarrow> state \<Rightarrow> state" where
  "steps [] s = s"
| "steps (ev # evs) s = steps evs (step ev s)"

text \<open>The operations of a client, each run to its end before the next; of a message
  handled the state it leaves is kept, also when handling it threw.\<close>

datatype operation =
    StartSession
  | SendPrompt env string
  | HandleMessage env JSONRPCMessage
  | ResumeSession env string
  | SetModel string
  | SetWorkspaceDir string
  | SetAutoSave bool

fun apply_op :: "operation \<Rightarrow> state \<Rightarrow> state" where
  "apply_op StartSession s = startSession s"
| "apply_op (SendPrompt e txt) s = sendPrompt e txt s"
| "apply_op (HandleMessage e msg) s = fst (handleMessage e msg s)"
| "apply_op (ResumeSession e sid) s = snd (resumeSession e sid s)"
| "apply_op (SetModel m) s = setModel m s"
| "apply_op (SetWorkspaceDir w) s = setWorkspaceDir w s"
| "apply_op (SetAutoSave b) s = setAutoSave b s"

fun run :: "operation list \<Rightarrow> state \<Rightarrow> state" where
  "run [] s = s"
| "run (x # xs) s = run xs (apply_op x s)"

text \<open>The messages the calls among the events push, in call order, the request counter
  standing at \<open>n\<close>.\<close>

fun pushed :: "nat \<Rightarrow> event list \<Rightarrow> JSONRPCMessage list" where
  "pushed n [] = []"
| "pushed n (SendRPC method params # evs) = request n method params # pushed (Suc n) evs"
| "pushed n (SendRPCResponse i res err # evs) = response i res err # pushed n evs"
| "pushed n (WriteSettled ok # evs) = pushed n evs"

text \<open>
  The invariant of the serializer between events: every message pushed is posted, dropped
  or still queued, in push order; at most one drain is suspended, and \<open>isWriting\<close> says
  whether one is; a suspended drain holds the lock; the queue is empty when no drain runs.
\<close>

definition ser_inv :: "state \<Rightarrow> bool" where
  "ser_inv s =
     (posted s @ dropped s @ writeQueue s = outbox s \<and>
      length (suspended s) \<le> 1 \<and>
      isWriting s = (suspended s \<noteq> []) \<and>
      (suspended s \<noteq> [] \<longrightarrow> locked s \<and> dropped s = []) \<and>
      (dropped s \<noteq> [] \<longrightarrow> locked s) \<and>
      (\<not> isWriting s \<longrightarrow> writeQueue s = []))"

text \<open>As long as no write has failed, nothing is dropped and only a suspended drain holds
  the lock.\<close>

definition ser_inv_ok :: "state \<Rightarrow> bool" where
  "ser_inv_ok s = (ser_inv s \<and> dropped s = [] \<and> (locked s \<longrightarrow> suspended s \<noteq> []))"

fun no_failure :: "event list \<Rightarrow> bool" where
  "no_failure [] = True"
| "no_failure (WriteSettled ok # evs) = (ok \<and> no_failure evs)"
| "no_failure (ev # evs) = no_failure evs"

text \<open>The ids of the requests among the messages pushed (a request has a method, a
  response has none), and the invariant of the request counter.\<close>

definition is_request :: "JSONRPCMessage \<Rightarrow> bool" where
  "is_request m = (rpc_method m \<noteq> None)"

definition request_ids :: "state \<Rightarrow> rpc_id option list" where
  "request_ids s = map rpc_id (filter is_request (outbox s))"

definition ids_upto :: "nat \<Rightarrow> rpc_id option list" where
  "ids_upto n = map (\<lambda>k. Some (IdNum (int k))) [0..<n]"

definition ids_ok :: "state \<Rightarrow> bool" where
  "ids_ok s = (request_ids s = ids_upto (requestId s))"

section \<open>A concrete run\<close>

text \<open>
  The exchange of src/mock-server.ts: the server asks for \<open>writeTextFile\<close> once the prompt
  has been acknowledged; the operator approves and the file is written.
\<close>

definition demo_env :: env where
  "demo_env =
     \<lparr>approved = Inr True,
      outcome = Inr \<lparr>success = Some True, content = None, entries = None, error = None,
                     exitCode = None, stdout = None, stderr = None,
                     path = Some ''hello_from_agent.txt''\<rparr>,
      now_ms = 1700000000000, t_entry = ''2023-11-14T22:13:20.000Z'',
      t_result = ''2023-11-14T22:13:21.000Z'', t_save = ''2023-11-14T22:13:22.000Z'',
      mkdir_ok = True, write_ok = True, read_ok = True\<rparr>"

definition demo_request :: JSONRPCMessage where
  "demo_request =
     \<lparr>rpc_id = Some (IdStr ''req_1700000001000''), rpc_method = Some ''writeTextFile'',
      rpc_params = Some (JObj [(''path'', JStr ''hello_from_agent.txt''),
                               (''content'', JStr ''Hello from the Mock Agent!'')]),
      rpc_result = None, rpc_error = None\<rparr>"

definition demo_client :: state where
  "demo_client = new_client None None ''/workspace'' False Map.empty"

definition demo_reject :: env where
  "demo_reject = demo_env\<lparr>approved := Inr False\<rparr>"


text \<open>The reply of the mock server to \<open>session/new\<close> (mock-server.ts:64-73).\<close>

definition demo_session_reply :: JSONRPCMessage where
  "demo_session_reply =
     \<lparr>rpc_id = Some (IdNum 1), rpc_method = None, rpc_params = None,
      rpc_result = Some (JObj [(''sessionId'', JStr ''mock-session-1'')]), rpc_error = None\<rparr>"

definition demo_prompted :: state where
  "demo_prompted = sendPrompt demo_env ''hello'' (startSession demo_client)"

definition demo_final :: state where
  "demo_final = fst (handleMessage demo_env demo_request demo_prompted)"

definition demo_busy :: "event list" where
  "demo_busy = [SendRPC ''session/new'' (JObj []),
                SendRPCResponse (Some (IdStr ''req_1700000001000'')) (JObj []) None]"

definition demo_events :: "event list" where
  "demo_events = demo_busy @ [WriteSettled True, WriteSettled True]"

definition demo_ops :: "operation list" where
  "demo_ops = [StartSession, SendPrompt demo_env ''hello'', HandleMessage demo_env demo_request]"



section \<open>What the serializer leaves untouched\<close>

definition frame :: "state \<Rightarrow> state \<Rightarrow> bool" where
  "frame s s' =
     (sessionId s' = sessionId s \<and> requestId s' = requestId s \<and> model s' = model s \<and>
      workspaceDir s' = workspaceDir s \<and> history s' = history s \<and> autoSave s' = autoSave s \<and>
      outbox s' = outbox s \<and> sessions_dir s' = sessions_dir s \<and> files s' = files s \<and>
      executed s' = executed s \<and> audit s' = audit s)"

lemma frame_refl: "frame s s"
  by (simp add: frame_def)

lemma frame_trans: "frame s t \<Longrightarrow> frame t u \<Longrightarrow> frame s u"
  by (simp add: frame_def)

lemma drain_loop_frame: "frame s (drain_loop q s)"
proof (induction q arbitrary: s)
  case Nil
  show ?case by (simp add: frame_def)
next
  case (Cons m q)
  show ?case
  proof (cases "locked s")
    case True
    have "frame (s\<lparr>dropped := dropped s @ [m]\<rparr>) (drain_loop q (s\<lparr>dropped := dropped s @ [m]\<rparr>))"
      by (rule Cons.IH)
    then show ?thesis using True by (simp add: frame_def)
  next
    case False
    then show ?thesis by (simp add: frame_def)
  qed
qed

lemma processWriteQueue_start_frame: "frame s (processWriteQueue_start s)"
proof (cases "isWriting s")
  case True
  then show ?thesis by (simp add: processWriteQueue_start_def frame_refl)
next
  case False
  have "frame (s\<lparr>isWriting := True\<rparr>) (drain_loop (writeQueue s) (s\<lparr>isWriting := True\<rparr>))"
    by (rule drain_loop_frame)
  then show ?thesis using False by (simp add: processWriteQueue_start_def frame_def)
qed

lemma write_settled_frame: "frame s (write_settled ok s)"
proof (cases "suspended s")
  case Nil
  then show ?thesis by (simp add: write_settled_def frame_refl)
next
  case (Cons m rest)
  let ?s1 = "s\<lparr>suspended := rest, locked := (if ok then False else locked s)\<rparr>"
  have "frame ?s1 (drain_loop (writeQueue ?s1) ?s1)"
    by (rule drain_loop_frame)
  then show ?thesis using Cons by (simp add: write_settled_def frame_def)
qed

lemma complete_idle: "suspended s = [] \<Longrightarrow> complete s = s"
  by (subst complete.simps) simp

lemma complete_step: "suspended s \<noteq> [] \<Longrightarrow> complete s = complete (write_settled True s)"
  by (subst complete.simps) simp

lemma complete_frame: "frame s (complete s)"
proof (induction s rule: complete.induct)
  case (1 s)
  show ?case
  proof (cases "suspended s = []")
    case True
    then show ?thesis by (simp add: complete_idle frame_refl)
  next
    case False
    from 1 [OF False] have "frame (write_settled True s) (complete (write_settled True s))" .
    with write_settled_frame [of s True] have "frame s (complete (write_settled True s))"
      by (rule frame_trans)
    with False show ?thesis by (simp add: complete_step)
  qed
qed

lemma processWriteQueue_frame: "frame s (processWriteQueue s)"
proof (cases "isWriting s")
  case True
  then show ?thesis by (simp add: processWriteQueue_def frame_refl)
next
  case False
  have "frame s (complete (processWriteQueue_start s))"
    using processWriteQueue_start_frame complete_frame by (rule frame_trans)
  with False show ?thesis by (simp add: processWriteQueue_def)
qed

lemma processWriteQueue_fields [simp]:
  "sessionId (processWriteQueue s) = sessionId s"
  "requestId (processWriteQueue s) = requestId s"
  "model (processWriteQueue s) = model s"
  "workspaceDir (processWriteQueue s) = workspaceDir s"
  "history (processWriteQueue s) = history s"
  "autoSave (processWriteQueue s) = autoSave s"
  "outbox (processWriteQueue s) = outbox s"
  "sessions_dir (processWriteQueue s) = sessions_dir s"
  "files (processWriteQueue s) = files s"
  "executed (processWriteQueue s) = executed s"
  "audit (processWriteQueue s) = audit s"
  using processWriteQueue_frame [of s] by (simp_all add: frame_def)

lemma processWriteQueue_start_fields [simp]:
  "sessionId (processWriteQueue_start s) = sessionId s"
  "requestId (processWriteQueue_start s) = requestId s"
  "model (processWriteQueue_start s) = model s"
  "workspaceDir (processWriteQueue_start s) = workspaceDir s"
  "history (processWriteQueue_start s) = history s"
  "autoSave (processWriteQueue_start s) = autoSave s"
  "outbox (processWriteQueue_start s) = outbox s"
  "sessions_dir (processWriteQueue_start s) = sessions_dir s"
  "files (processWriteQueue_start s) = files s"
  "executed (processWriteQueue_start s) = executed s"
  "audit (processWriteQueue_start s) = audit s"
  using processWriteQueue_start_frame [of s] by (simp_all add: frame_def)

lemma write_settled_fields [simp]:
  "sessionId (write_settled ok s) = sessionId s"
  "requestId (write_settled ok s) = requestId s"
  "model (write_settled ok s) = model s"
  "workspaceDir (write_settled ok s) = workspaceDir s"
  "history (write_settled ok s) = history s"
  "autoSave (write_settled ok s) = autoSave s"
  "outbox (write_settled ok s) = outbox s"
  "sessions_dir (write_settled ok s) = sessions_dir s"
  "files (write_settled ok s) = files s"
  "executed (write_settled ok s) = executed s"
  "audit (write_settled ok s) = audit s"
  using write_settled_frame [of s ok] by (simp_all add: frame_def)

section \<open>Effects of the client's operations, field by field\<close>

lemma sendRPCResponse_fields [simp]:
  "outbox (sendRPCResponse i res err s) = outbox s @ [response i res err]"
  "sessionId (sendRPCResponse i res err s) = sessionId s"
  "requestId (sendRPCResponse i res err s) = requestId s"
  "model (sendRPCResponse i res err s) = model s"
  "workspaceDir (sendRPCResponse i res err s) = workspaceDir s"
  "history (sendRPCResponse i res err s) = history s"
  "autoSave (sendRPCResponse i res err s) = autoSave s"
  "sessions_dir (sendRPCResponse i res err s) = sessions_dir s"
  "files (sendRPCResponse i res err s) = files s"
  "executed (sendRPCResponse i res err s) = executed s"
  "audit (sendRPCResponse i res err s) = audit s"
  by (simp_all add: sendRPCResponse_def enqueue_response_def push_def)

lemma sendRPC_fields [simp]:
  "fst (sendRPC method params s) = JNull"
  "outbox (snd (sendRPC method params s)) = outbox s @ [request (requestId s) method params]"
  "requestId (snd (sendRPC method params s)) = Suc (requestId s)"
  "sessionId (snd (sendRPC method params s)) = sessionId s"
  "model (snd (sendRPC method params s)) = model s"
  "workspaceDir (snd (sendRPC method params s)) = workspaceDir s"
  "history (snd (sendRPC method params s)) = history s"
  "autoSave (snd (sendRPC method params s)) = autoSave s"
  "sessions_dir (snd (sendRPC method params s)) = sessions_dir s"
  "files (snd (sendRPC method params s)) = files s"
  "executed (snd (sendRPC method params s)) = executed s"
  "audit (snd (sendRPC method params s)) = audit s"
  by (simp_all add: sendRPC_def enqueue_request_def push_def)

lemma persistSession_fields [simp]:
  "outbox (persistSession e s) = outbox s"
  "sessionId (persistSession e s) = sessionId s"
  "requestId (persistSession e s) = requestId s"
  "model (persistSession e s) = model s"
  "workspaceDir (persistSession e s) = workspaceDir s"
  "history (persistSession e s) = history s"
  "autoSave (persistSession e s) = autoSave s"
  "executed (persistSession e s) = executed s"
  "audit (persistSession e s) = audit s"
  by (simp_all add: persistSession_def saveSession_def Let_def split: option.splits)

text \<open>What the try block leaves behind.\<close>

lemma run_tool_outbox:
  "run_tool e t rid p s = (s', x) \<Longrightarrow>
     (case x of None \<Rightarrow> (\<exists>res. outbox s' = outbox s @ [response rid res None])
              | Some m \<Rightarrow> outbox s' = outbox s)"
  by (auto simp: run_tool_def Let_def logReceipt_def split: if_splits sum.splits json.splits)

lemma run_tool_frame:
  "run_tool e t rid p s = (s', x) \<Longrightarrow>
     sessionId s' = sessionId s \<and> requestId s' = requestId s \<and> model s' = model s \<and>
     workspaceDir s' = workspaceDir s \<and> autoSave s' = autoSave s \<and>
     sessions_dir s' = sessions_dir s \<and> files s' = files s"
  by (auto simp: run_tool_def Let_def logReceipt_def split: if_splits sum.splits json.splits)

lemma run_tool_history:
  "run_tool e t rid p s = (s', x) \<Longrightarrow>
     history s' = history s @ (if t = ''writeTextFile'' \<and> x = None then [tool_result_entry e t] else [])"
  by (auto simp: run_tool_def Let_def logReceipt_def split: if_splits sum.splits json.splits)

lemma run_tool_write_thrown:
  "run_tool e ''writeTextFile'' rid p s = (s', x) \<Longrightarrow> (x = None) = tool_ok (checked (outcome e))"
  by (auto simp: run_tool_def Let_def split: sum.splits)

text \<open>The three ways through \<open>handleToolCall\<close>.\<close>

lemma handleToolCall_prompt_failed:
  "approved e = Inl m \<Longrightarrow>
     handleToolCall e toolName rid params s =
       (logReceipt TOOL_CALL (s\<lparr>history := history s @ [tool_call_entry e toolName params]\<rparr>),
        Some m)"
  by (simp add: handleToolCall_def Let_def)

lemma handleToolCall_rejected:
  "approved e = Inr False \<Longrightarrow>
     handleToolCall e toolName rid params s =
       (sendRPCResponse rid JNull (Some \<lparr>code = - 32000, message = ''User rejected tool call''\<rparr>)
          (logReceipt TOOL_ERROR (logReceipt TOOL_CALL
             (s\<lparr>history := history s @ [tool_call_entry e toolName params]\<rparr>))), None)"
  by (simp add: handleToolCall_def Let_def)

text \<open>An approved call ends in persistSession, on a state with the history of the result.\<close>

lemma handleToolCall_approved:
  "approved e = Inr True \<Longrightarrow>
     \<exists>s3. handleToolCall e t rid p s = (persistSession e s3, None) \<and>
          sessionId s3 = sessionId s \<and> requestId s3 = requestId s \<and>
          autoSave s3 = autoSave s \<and> model s3 = model s \<and>
          workspaceDir s3 = workspaceDir s \<and> sessions_dir s3 = sessions_dir s \<and>
          (\<exists>res err. outbox s3 = outbox s @ [response rid res err]) \<and>
          history s3 = history s @ [tool_call_entry e t p] @
            (if t = ''writeTextFile'' \<and> tool_ok (checked (outcome e))
             then [tool_result_entry e t] else [])"
proof -
  assume a: "approved e = Inr True"
  let ?s1 = "logReceipt TOOL_CALL (s\<lparr>history := history s @ [tool_call_entry e t p]\<rparr>)"
  obtain s2 x where rt: "run_tool e t rid p ?s1 = (s2, x)"
    by (cases "run_tool e t rid p ?s1") auto
  note f = run_tool_frame [OF rt]
  note h = run_tool_history [OF rt]
  note o = run_tool_outbox [OF rt]
  have w: "t = ''writeTextFile'' \<Longrightarrow> (x = None) = tool_ok (checked (outcome e))"
    using rt run_tool_write_thrown by blast
  let ?s3 = "case x of None \<Rightarrow> s2
      | Some m \<Rightarrow> sendRPCResponse rid JNull (Some \<lparr>code = - 32603, message = m\<rparr>)
                    (logReceipt TOOL_ERROR s2)"
  have eq: "handleToolCall e t rid p s = (persistSession e ?s3, None)"
    using a rt by (simp add: handleToolCall_def Let_def)
  have fr: "sessionId ?s3 = sessionId s \<and> requestId ?s3 = requestId s \<and>
          autoSave ?s3 = autoSave s \<and> model ?s3 = model s \<and>
          workspaceDir ?s3 = workspaceDir s \<and> sessions_dir ?s3 = sessions_dir s \<and>
          history ?s3 = history s @ [tool_call_entry e t p] @
            (if t = ''writeTextFile'' \<and> tool_ok (checked (outcome e))
             then [tool_result_entry e t] else [])"
    using f h w by (cases x) (auto simp: logReceipt_def)
  have ob: "\<exists>res err. outbox ?s3 = outbox s @ [response rid res err]"
  proof (cases x)
    case None
    with o obtain res where "outbox s2 = outbox s @ [response rid res None]"
      by (auto simp: logReceipt_def)
    with None show ?thesis by auto
  next
    case (Some m)
    with o have "outbox s2 = outbox s" by (simp add: logReceipt_def)
    with Some have "outbox ?s3 =
        outbox s @ [response rid JNull (Some \<lparr>code = - 32603, message = m\<rparr>)]"
      by (simp add: logReceipt_def)
    then show ?thesis by blast
  qed
  from eq fr ob show ?thesis by blast
qed

lemma handleToolCall_outbox:
  "approved e = Inr b \<Longrightarrow>
     \<exists>res err. outbox (fst (handleToolCall e t rid p s)) = outbox s @ [response rid res err]"
proof (cases b)
  case False
  assume "approved e = Inr b"
  with False have "outbox (fst (handleToolCall e t rid p s)) =
      outbox s @ [response rid JNull (Some \<lparr>code = - 32000, message = ''User rejected tool call''\<rparr>)]"
    by (simp add: handleToolCall_rejected logReceipt_def)
  then show ?thesis by blast
next
  case True
  assume "approved e = Inr b"
  with True have a: "approved e = Inr True" by simp
  from handleToolCall_approved [OF a, of t rid p s]
  obtain s3 res err where "handleToolCall e t rid p s = (persistSession e s3, None)"
    "outbox s3 = outbox s @ [response rid res err]"
    by blast
  then have "outbox (fst (handleToolCall e t rid p s)) = outbox s @ [response rid res err]"
    by simp
  then show ?thesis by blast
qed


lemma handleToolCall_outbox_prompt_failed:
  "approved e = Inl m \<Longrightarrow> outbox (fst (handleToolCall e t rid p s)) = outbox s"
  by (simp add: handleToolCall_prompt_failed logReceipt_def)

lemma handleToolCall_outbox_any:
  "outbox (fst (handleToolCall e t rid p s)) = outbox s \<or>
   (\<exists>res err. outbox (fst (handleToolCall e t rid p s)) = outbox s @ [response rid res err])"
proof (cases "approved e")
  case (Inl m)
  then show ?thesis by (simp add: handleToolCall_outbox_prompt_failed)
next
  case (Inr b)
  then show ?thesis using handleToolCall_outbox by blast
qed

lemma handleToolCall_frame [simp]:
  "sessionId (fst (handleToolCall e t rid p s)) = sessionId s"
  "requestId (fst (handleToolCall e t rid p s)) = requestId s"
  "model (fst (handleToolCall e t rid p s)) = model s"
  "workspaceDir (fst (handleToolCall e t rid p s)) = workspaceDir s"
  "autoSave (fst (handleToolCall e t rid p s)) = autoSave s"
proof -
  have "sessionId (fst (handleToolCall e t rid p s)) = sessionId s \<and>
    requestId (fst (handleToolCall e t rid p s)) = requestId s \<and>
    model (fst (handleToolCall e t rid p s)) = model s \<and>
    workspaceDir (fst (handleToolCall e t rid p s)) = workspaceDir s \<and>
    autoSave (fst (handleToolCall e t rid p s)) = autoSave s"
  proof (cases "approved e")
    case (Inl m)
    then show ?thesis by (simp add: handleToolCall_prompt_failed logReceipt_def)
  next
    case (Inr b)
    show ?thesis
    proof (cases b)
      case False
      with Inr show ?thesis by (simp add: handleToolCall_rejected logReceipt_def)
    next
      case True
      with Inr have a: "approved e = Inr True" by simp
      from handleToolCall_approved [OF a, of t rid p s] show ?thesis by auto
    qed
  qed
  then show "sessionId (fst (handleToolCall e t rid p s)) = sessionId s"
    and "requestId (fst (handleToolCall e t rid p s)) = requestId s"
    and "model (fst (handleToolCall e t rid p s)) = model s"
    and "workspaceDir (fst (handleToolCall e t rid p s)) = workspaceDir s"
    and "autoSave (fst (handleToolCall e t rid p s)) = autoSave s"
    by simp_all
qed

lemma handleToolCall_history:
  "history (fst (handleToolCall e t rid p s)) =
     history s @ [tool_call_entry e t p] @
       (if approved e = Inr True \<and> t = ''writeTextFile'' \<and> tool_ok (checked (outcome e))
        then [tool_result_entry e t] else [])"
proof (cases "approved e")
  case (Inl m)
  then show ?thesis by (simp add: handleToolCall_prompt_failed logReceipt_def)
next
  case (Inr b)
  show ?thesis
  proof (cases b)
    case False
    with Inr show ?thesis by (simp add: handleToolCall_rejected logReceipt_def)
  next
    case True
    with Inr have a: "approved e = Inr True" by simp
    from handleToolCall_approved [OF a, of t rid p s] a show ?thesis by auto
  qed
qed

text \<open>What \<open>persistSession\<close> writes.\<close>

lemma persistSession_saved:
  "autoSave s \<Longrightarrow> sessionId s = Some sid \<Longrightarrow> sid \<noteq> [] \<Longrightarrow> write_ok e \<Longrightarrow>
   sessions_dir s \<or> mkdir_ok e \<Longrightarrow>
     files (persistSession e s) (session_path sid) =
       Some (JSON_stringify (session_json
         \<lparr>sd_sessionId = sid, sd_model = model s, sd_workspaceDir = workspaceDir s,
          sd_timestamp = t_save e, sd_history = history s\<rparr>))"
  by (auto simp: persistSession_def saveSession_def Let_def)

lemma handleToolCall_persisted:
  assumes "approved e = Inr True" "autoSave s" "sessionId s = Some sid" "sid \<noteq> []" "write_ok e"
    "sessions_dir s \<or> mkdir_ok e"
  shows "files (fst (handleToolCall e t rid p s)) (session_path sid) =
       Some (JSON_stringify (session_json
         \<lparr>sd_sessionId = sid, sd_model = model s, sd_workspaceDir = workspaceDir s,
          sd_timestamp = t_save e, sd_history = history (fst (handleToolCall e t rid p s))\<rparr>))"
proof -
  from handleToolCall_approved [OF assms(1), of t rid p s]
  obtain s3 where s3: "handleToolCall e t rid p s = (persistSession e s3, None)"
    "sessionId s3 = sessionId s" "autoSave s3 = autoSave s" "model s3 = model s"
    "workspaceDir s3 = workspaceDir s" "sessions_dir s3 = sessions_dir s"
    by blast
  have "files (persistSession e s3) (session_path sid) =
       Some (JSON_stringify (session_json
         \<lparr>sd_sessionId = sid, sd_model = model s3, sd_workspaceDir = workspaceDir s3,
          sd_timestamp = t_save e, sd_history = history s3\<rparr>))"
    using assms s3 by (intro persistSession_saved) simp_all
  then show ?thesis using s3 by simp
qed

lemma adopt_null [simp]: "adopt JNull now = ''session-'' @ dec now"
  by simp

lemma sendPrompt_fields:
  "sessionId (sendPrompt e txt s) =
     (if no_session (sessionId s) then Some (''session-'' @ dec (now_ms e)) else sessionId s)"
  "history (sendPrompt e txt s) = history s @ [prompt_entry e txt]"
  "outbox (sendPrompt e txt s) =
     (if no_session (sessionId s)
      then outbox s @ [request (requestId s) ''session/new'' (JObj []),
                       request (Suc (requestId s)) ''session/prompt'' (prompt_params txt)]
      else outbox s @ [request (requestId s) ''session/prompt'' (prompt_params txt)])"
  "requestId (sendPrompt e txt s) =
     (if no_session (sessionId s) then Suc (Suc (requestId s)) else Suc (requestId s))"
  "model (sendPrompt e txt s) = model s"
  "workspaceDir (sendPrompt e txt s) = workspaceDir s"
  "autoSave (sendPrompt e txt s) = autoSave s"
  "executed (sendPrompt e txt s) = executed s"
  by (simp_all add: sendPrompt_def Let_def logReceipt_def split_beta)

lemma sendPrompt_sessions_dir:
  "sessions_dir s \<Longrightarrow> sessions_dir (sendPrompt e txt s)"
  by (simp add: sendPrompt_def Let_def logReceipt_def split_beta persistSession_def saveSession_def
      split: option.splits)

lemma sendPrompt_persisted:
  assumes "autoSave s" "write_ok e" "sessions_dir s \<or> mkdir_ok e"
    "sessionId (sendPrompt e txt s) = Some sid" "sid \<noteq> []"
  shows "files (sendPrompt e txt s) (session_path sid) =
       Some (JSON_stringify (session_json
         \<lparr>sd_sessionId = sid, sd_model = model s, sd_workspaceDir = workspaceDir s,
          sd_timestamp = t_save e, sd_history = history s @ [prompt_entry e txt]\<rparr>))"
proof -
  let ?s1 = "logReceipt PROMPT s"
  let ?s2 = "if no_session (sessionId ?s1) then
                  (case sendRPC ''session/new'' (JObj []) ?s1 of
                     (sessionResp, s') \<Rightarrow> s'\<lparr>sessionId := Some (adopt sessionResp (now_ms e))\<rparr>)
                else ?s1"
  let ?s3 = "?s2\<lparr>history := history ?s2 @ [prompt_entry e txt]\<rparr>"
  let ?s4 = "snd (sendRPC ''session/prompt'' (prompt_params txt) ?s3)"
  have eq: "sendPrompt e txt s = persistSession e ?s4"
    by (simp add: sendPrompt_def Let_def)
  have sid: "sessionId ?s4 = Some sid"
    using assms(4) unfolding eq by simp
  have rest: "autoSave ?s4" "sessions_dir ?s4 \<or> mkdir_ok e" "model ?s4 = model s"
    "workspaceDir ?s4 = workspaceDir s" "history ?s4 = history s @ [prompt_entry e txt]"
    using assms(1,3) by (simp_all add: logReceipt_def split_beta)
  have "files (persistSession e ?s4) (session_path sid) =
       Some (JSON_stringify (session_json
         \<lparr>sd_sessionId = sid, sd_model = model ?s4, sd_workspaceDir = workspaceDir ?s4,
          sd_timestamp = t_save e, sd_history = history ?s4\<rparr>))"
    using rest(1) sid assms(5,2) rest(2) by (rule persistSession_saved)
  then show ?thesis unfolding eq rest(3,4,5) .
qed

lemma startSession_fields [simp]:
  "sessionId (startSession s) = sessionId s"
  "history (startSession s) = history s"
  "outbox (startSession s) = outbox s @ [request (requestId s) ''initialize'' (initialize_params s)]"
  "requestId (startSession s) = Suc (requestId s)"
  "model (startSession s) = model s"
  "workspaceDir (startSession s) = workspaceDir s"
  "autoSave (startSession s) = autoSave s"
  "sessions_dir (startSession s) = sessions_dir s"
  "files (startSession s) = files s"
  "executed (startSession s) = executed s"
  by (simp_all add: startSession_def Let_def logReceipt_def initialize_params_def)

lemma handle_no_method_fields [simp]:
  "sessionId (handle_no_method msg s) = sessionId s"
  "history (handle_no_method msg s) = history s"
  "outbox (handle_no_method msg s) = outbox s"
  "requestId (handle_no_method msg s) = requestId s"
  "files (handle_no_method msg s) = files s"
  by (simp_all add: handle_no_method_def logReceipt_def split: option.splits)

lemma handleMessage_sessionId [simp]: "sessionId (fst (handleMessage e msg s)) = sessionId s"
  by (simp add: handleMessage_def split: option.splits)

lemma handleMessage_requestId [simp]: "requestId (fst (handleMessage e msg s)) = requestId s"
  by (simp add: handleMessage_def split: option.splits)

lemma handleMessage_write:
  "m \<in> set WRITE_FILE \<Longrightarrow>
     handleMessage e (msg\<lparr>rpc_method := Some m\<rparr>) s =
       handleToolCall e ''writeTextFile'' (rpc_id msg) (or_else (rpc_params msg) (JObj [])) s"
  by (auto simp: handleMessage_def matchesTool_def WRITE_FILE_def)

section \<open>Writing a session and reading it back\<close>


lemma as_entry_type_name [simp]: "as_entry_type (type_name k) = Some k"
  by (cases k) (simp_all add: as_entry_type_def)

lemma as_entry_reread:
  "as_entry (JSON_parse (JSON_stringify (entry_json h))) = Some (reread_entry h)"
  by (simp add: as_entry_def entry_json_def reread_entry_def)

lemma those_entries_reread:
  "those (map (as_entry \<circ> (JSON_parse \<circ> (JSON_stringify \<circ> entry_json))) hs) =
     Some (map reread_entry hs)"
  by (induction hs) (simp_all add: as_entry_reread)

lemma as_SessionData_reread:
  "as_SessionData (JSON_parse (JSON_stringify (session_json d))) = Some (reread d)"
  by (cases d) (simp add: as_SessionData_def session_json_def those_entries_reread reread_def)


lemma entry_type_reread_entry [simp]: "entry_type (reread_entry h) = entry_type h"
  by (simp add: reread_entry_def)

lemma entry_type_comp_reread [simp]: "entry_type \<circ> reread_entry = entry_type"
  by (rule ext) simp

lemma loadSession_saved:
  "files s (session_path sid) = Some (JSON_stringify (session_json d)) \<Longrightarrow> read_ok e \<Longrightarrow>
     loadSession e sid s = Some (reread d)"
  by (simp add: loadSession_def as_SessionData_reread)


section \<open>Facts about the concrete run\<close>

lemma handleMessage_outbox:
  "outbox (fst (handleMessage e msg s)) = outbox s \<or>
   (\<exists>res err. outbox (fst (handleMessage e msg s)) = outbox s @ [response (rpc_id msg) res err])"
  using handleToolCall_outbox_any
  by (auto simp: handleMessage_def split: option.splits)

lemma dec_demo: "dec 1700000000000 = ''1700000000000''"
  by (simp add: dec.simps digit_def)

lemma demo_client_fields:
  "sessionId demo_client = None" "history demo_client = []" "autoSave demo_client"
  "requestId demo_client = 0" "outbox demo_client = []" "files demo_client = Map.empty"
  "sessions_dir demo_client = False" "executed demo_client = []"
  by (simp_all add: demo_client_def new_client_def)

lemma demo_prompted_fields:
  "sessionId demo_prompted = Some ''session-1700000000000''"
  "history demo_prompted = [prompt_entry demo_env ''hello'']"
  "autoSave demo_prompted"
proof -
  have n: "now_ms demo_env = 1700000000000"
    by (simp add: demo_env_def)
  show "sessionId demo_prompted = Some ''session-1700000000000''"
    by (simp add: demo_prompted_def sendPrompt_fields demo_client_fields n dec_demo)
  show "history demo_prompted = [prompt_entry demo_env ''hello'']"
    by (simp add: demo_prompted_def sendPrompt_fields demo_client_fields)
  show "autoSave demo_prompted"
    by (simp add: demo_prompted_def sendPrompt_fields demo_client_fields)
qed

lemma session_name_nonempty [simp]: "''session-'' @ x \<noteq> []"
  by simp

lemma demo_ok:
  "approved demo_env = Inr True" "tool_ok (checked (outcome demo_env))" "write_ok demo_env"
  "False \<or> mkdir_ok demo_env" "''writeTextFile'' \<in> set WRITE_FILE"
  "demo_request\<lparr>rpc_method := Some ''writeTextFile''\<rparr> = demo_request"
  "now_ms demo_env = 1700000000000" "read_ok demo_env"
  by (simp_all add: demo_env_def WRITE_FILE_def demo_request_def)

lemma demo_final_unfold:
  "demo_final = fst (handleMessage demo_env (demo_request\<lparr>rpc_method := Some ''writeTextFile''\<rparr>)
               (sendPrompt demo_env ''hello'' (startSession (new_client None None ''/workspace'' False Map.empty))))"
  by (simp add: demo_final_def demo_prompted_def demo_client_def demo_ok(6))

section \<open>One response per accepted tool call\<close>




section \<open>Rejection by the operator\<close>

text \<open>
  C4. When the operator rejects, \<open>handleToolCall\<close> pushes for the request's id the response
  \<open>error: {code: -32000, message: "User rejected tool call"}\<close> and nothing else, calls no
  tool collaborator, and appends to the history the \<open>tool_call\<close> entry only: no
  \<open>tool_result\<close> entry is added.
\<close>

theorem rejection_response:
  "approved e = Inr False \<Longrightarrow>
     outbox (fst (handleToolCall e toolName rid params s)) =
       outbox s @ [\<lparr>rpc_id = rid, rpc_method = None, rpc_params = None, rpc_result = None,
                    rpc_error = Some \<lparr>code = - 32000, message = ''User rejected tool call''\<rparr>\<rparr>] \<and>
     executed (fst (handleToolCall e toolName rid params s)) = executed s \<and>
     history (fst (handleToolCall e toolName rid params s)) =
       history s @ [tool_call_entry e toolName params] \<and>
     filter (\<lambda>h. entry_type h = tool_result)
       (history (fst (handleToolCall e toolName rid params s))) =
       filter (\<lambda>h. entry_type h = tool_result) (history s) \<and>
     snd (handleToolCall e toolName rid params s) = None"
  by (simp add: handleToolCall_rejected logReceipt_def response_def tool_call_entry_def)

theorem rejection_response_witness:
  "approved demo_reject = Inr False \<and>
   outbox (fst (handleToolCall demo_reject ''writeTextFile'' (rpc_id demo_request) JNull demo_client)) =
     [\<lparr>rpc_id = Some (IdStr ''req_1700000001000''), rpc_method = None, rpc_params = None,
       rpc_result = None,
       rpc_error = Some \<lparr>code = - 32000, message = ''User rejected tool call''\<rparr>\<rparr>] \<and>
   executed (fst (handleToolCall demo_reject ''writeTextFile'' (rpc_id demo_request) JNull demo_client)) = [] \<and>
   map entry_type (history (fst (handleToolCall demo_reject ''writeTextFile'' (rpc_id demo_request) JNull demo_client))) =
     [tool_call]"
proof -
  have r: "approved demo_reject = Inr False"
    by (simp add: demo_reject_def demo_env_def)
  from rejection_response [OF r, of "''writeTextFile''" "rpc_id demo_request" JNull demo_client] r
  show ?thesis
    by (simp add: demo_client_def new_client_def demo_request_def tool_call_entry_def)
qed

section \<open>Resuming a session that is not stored\<close>

text \<open>
  C9. \<open>resumeSession\<close> with an id for which no session file exists (or whose file cannot be
  read) returns \<open>false\<close> and leaves the whole state as it was; whenever it returns
  \<open>false\<close> the state is unchanged.
\<close>

theorem resume_missing:
  "(files s (session_path sid) = None \<longrightarrow> resumeSession e sid s = (False, s)) \<and>
   (loadSession e sid s = None \<longrightarrow> resumeSession e sid s = (False, s)) \<and>
   (\<not> fst (resumeSession e sid s) \<longrightarrow> snd (resumeSession e sid s) = s)"
  by (simp add: resumeSession_def loadSession_def split: option.splits)

theorem resume_missing_witness:
  "files demo_client (session_path ''mock-session-1'') = None \<and>
   loadSession demo_env ''mock-session-1'' demo_client = None \<and>
   \<not> fst (resumeSession demo_env ''mock-session-1'' demo_client) \<and>
   resumeSession demo_env ''mock-session-1'' demo_client = (False, demo_client) \<and>
   snd (resumeSession demo_env ''mock-session-1'' demo_client) = demo_client"
proof -
  have f: "files demo_client (session_path ''mock-session-1'') = None"
    by (simp add: demo_client_def new_client_def)
  then have l: "loadSession demo_env ''mock-session-1'' demo_client = None"
    by (simp add: loadSession_def)
  from resume_missing [of demo_client "''mock-session-1''" demo_env] f
  have "resumeSession demo_env ''mock-session-1'' demo_client = (False, demo_client)"
    by blast
  with f l show ?thesis by simp
qed

section \<open>Saving and loading a session\<close>




section \<open>Spellings of a tool method\<close>

text \<open>
  C8. For a fixed id and fixed params, every spelling of a tool method is handled by the
  same call of \<open>handleToolCall\<close> with the name of its family, so the resulting state (and
  with it the response pushed) is the same for all spellings of the write-file family, and
  likewise for the read-file, list-directory and create-terminal families.
\<close>

theorem aliases_route_alike:
  "(\<forall>m \<in> set WRITE_FILE. handleMessage e (msg\<lparr>rpc_method := Some m\<rparr>) s =
       handleToolCall e ''writeTextFile'' (rpc_id msg) (or_else (rpc_params msg) (JObj [])) s) \<and>
   (\<forall>m \<in> set READ_FILE. handleMessage e (msg\<lparr>rpc_method := Some m\<rparr>) s =
       handleToolCall e ''readTextFile'' (rpc_id msg) (or_else (rpc_params msg) (JObj [])) s) \<and>
   (\<forall>m \<in> set LIST_DIRECTORY. handleMessage e (msg\<lparr>rpc_method := Some m\<rparr>) s =
       handleToolCall e ''listDirectory'' (rpc_id msg) (or_else (rpc_params msg) (JObj [])) s) \<and>
   (\<forall>m \<in> set CREATE_TERMINAL. handleMessage e (msg\<lparr>rpc_method := Some m\<rparr>) s =
       handleToolCall e ''createTerminal'' (rpc_id msg) (or_else (rpc_params msg) (JObj [])) s)"
  by (simp add: handleMessage_def matchesTool_def WRITE_FILE_def READ_FILE_def
      LIST_DIRECTORY_def CREATE_TERMINAL_def)

theorem aliases_route_alike_witness:
  "''fs/writeTextFile'' \<in> set WRITE_FILE \<and> ''fs.readTextFile'' \<in> set READ_FILE \<and>
   ''listDirectory'' \<in> set LIST_DIRECTORY \<and> ''terminal/create'' \<in> set CREATE_TERMINAL \<and>
   handleMessage demo_env (demo_request\<lparr>rpc_method := Some ''fs/writeTextFile''\<rparr>) demo_client =
     handleMessage demo_env (demo_request\<lparr>rpc_method := Some ''writeTextFile''\<rparr>) demo_client \<and>
   handleMessage demo_env (demo_request\<lparr>rpc_method := Some ''fs.readTextFile''\<rparr>) demo_client =
     handleMessage demo_env (demo_request\<lparr>rpc_method := Some ''readTextFile''\<rparr>) demo_client \<and>
   handleMessage demo_env (demo_request\<lparr>rpc_method := Some ''listDirectory''\<rparr>) demo_client =
     handleMessage demo_env (demo_request\<lparr>rpc_method := Some ''fs/listDirectory''\<rparr>) demo_client \<and>
   handleMessage demo_env (demo_request\<lparr>rpc_method := Some ''terminal/create''\<rparr>) demo_client =
     handleMessage demo_env (demo_request\<lparr>rpc_method := Some ''terminal.create''\<rparr>) demo_client"
proof -
  have mem: "''fs/writeTextFile'' \<in> set WRITE_FILE" "''writeTextFile'' \<in> set WRITE_FILE"
    "''fs.readTextFile'' \<in> set READ_FILE" "''readTextFile'' \<in> set READ_FILE"
    "''listDirectory'' \<in> set LIST_DIRECTORY" "''fs/listDirectory'' \<in> set LIST_DIRECTORY"
    "''terminal/create'' \<in> set CREATE_TERMINAL" "''terminal.create'' \<in> set CREATE_TERMINAL"
    by (simp_all add: WRITE_FILE_def READ_FILE_def LIST_DIRECTORY_def CREATE_TERMINAL_def)
  note a = aliases_route_alike [of demo_env demo_request demo_client]
  from a mem(1,2) have w: "handleMessage demo_env (demo_request\<lparr>rpc_method := Some ''fs/writeTextFile''\<rparr>) demo_client =
     handleMessage demo_env (demo_request\<lparr>rpc_method := Some ''writeTextFile''\<rparr>) demo_client"
    by metis
  from a mem(3,4) have r: "handleMessage demo_env (demo_request\<lparr>rpc_method := Some ''fs.readTextFile''\<rparr>) demo_client =
     handleMessage demo_env (demo_request\<lparr>rpc_method := Some ''readTextFile''\<rparr>) demo_client"
    by metis
  from a mem(5,6) have l: "handleMessage demo_env (demo_request\<lparr>rpc_method := Some ''listDirectory''\<rparr>) demo_client =
     handleMessage demo_env (demo_request\<lparr>rpc_method := Some ''fs/listDirectory''\<rparr>) demo_client"
    by metis
  from a mem(7,8) have c: "handleMessage demo_env (demo_request\<lparr>rpc_method := Some ''terminal/create''\<rparr>) demo_client =
     handleMessage demo_env (demo_request\<lparr>rpc_method := Some ''terminal.create''\<rparr>) demo_client"
    by metis
  from mem w r l c show ?thesis by simp
qed

section \<open>A prompt followed by an approved, successful write\<close>

lemma prompt_then_write:
  assumes "approved e2 = Inr True" "tool_ok (checked (outcome e2))" "write_ok e2"
    "dir \<or> mkdir_ok e2" "m \<in> set WRITE_FILE"
  shows "files (fst (handleMessage e2 (msg\<lparr>rpc_method := Some m\<rparr>)
                  (sendPrompt e1 txt (startSession (new_client mo w cwd dir fs)))))
           (session_path (''session-'' @ dec (now_ms e1))) =
         Some (JSON_stringify (session_json
           \<lparr>sd_sessionId = ''session-'' @ dec (now_ms e1),
            sd_model = or_default mo ''claude-3-5-sonnet-20241022'',
            sd_workspaceDir = or_default w cwd, sd_timestamp = t_save e2,
            sd_history = [prompt_entry e1 txt,
                          tool_call_entry e2 ''writeTextFile'' (or_else (rpc_params msg) (JObj [])),
                          tool_result_entry e2 ''writeTextFile'']\<rparr>))"
proof -
  let ?c = "startSession (new_client mo w cwd dir fs)"
  let ?p = "sendPrompt e1 txt ?c"
  let ?sid = "''session-'' @ dec (now_ms e1)"
  have c: "sessionId ?c = None" "history ?c = []" "autoSave ?c" "sessions_dir ?c = dir"
    "model ?c = or_default mo ''claude-3-5-sonnet-20241022''" "workspaceDir ?c = or_default w cwd"
    by (simp_all add: new_client_def)
  have p: "sessionId ?p = Some ?sid" "history ?p = [prompt_entry e1 txt]" "autoSave ?p"
    "model ?p = or_default mo ''claude-3-5-sonnet-20241022''" "workspaceDir ?p = or_default w cwd"
    using c by (simp_all add: sendPrompt_fields)
  have d: "sessions_dir ?p \<or> mkdir_ok e2"
    using assms(4) c(4) sendPrompt_sessions_dir [of "startSession (new_client mo w cwd dir fs)" e1 "txt"] by auto
  have "files (fst (handleToolCall e2 ''writeTextFile'' (rpc_id msg) (or_else (rpc_params msg) (JObj [])) ?p))
          (session_path ?sid) =
       Some (JSON_stringify (session_json
         \<lparr>sd_sessionId = ?sid, sd_model = model ?p, sd_workspaceDir = workspaceDir ?p,
          sd_timestamp = t_save e2,
          sd_history = history (fst (handleToolCall e2 ''writeTextFile'' (rpc_id msg)
                                  (or_else (rpc_params msg) (JObj [])) ?p))\<rparr>))"
    using assms(1) p(3) p(1) session_name_nonempty assms(3) d by (rule handleToolCall_persisted)
  then show ?thesis
    using assms(1,2,5) p by (simp add: handleMessage_write handleToolCall_history)
qed

text \<open>
  C2. In the run: handshake, one prompt, then one approved and successful
  \<open>writeTextFile\<close> request (in any of its spellings), the session adopted is
  \<open>session-<Date.now()>\<close>; its file is the session in memory as \<open>JSON.stringify\<close> writes
  it, and it holds exactly three history entries, in the order \<open>prompt\<close>, \<open>tool_call\<close>,
  \<open>tool_result\<close>: the \<open>tool_call\<close> entry pushed at receipt (client.ts:141-145) is part of
  the persisted history.
\<close>

theorem prompt_then_write_history:
  assumes "approved e2 = Inr True" "tool_ok (checked (outcome e2))" "write_ok e2"
    "dir \<or> mkdir_ok e2" "m \<in> set WRITE_FILE"
    and "s = fst (handleMessage e2 (msg\<lparr>rpc_method := Some m\<rparr>)
               (sendPrompt e1 txt (startSession (new_client mo w cwd dir fs))))"
  shows "sessionId s = Some (''session-'' @ dec (now_ms e1)) \<and>
     files s (session_path (''session-'' @ dec (now_ms e1))) =
       Some (JSON_stringify (session_json
         \<lparr>sd_sessionId = ''session-'' @ dec (now_ms e1), sd_model = model s,
          sd_workspaceDir = workspaceDir s, sd_timestamp = t_save e2,
          sd_history = history s\<rparr>)) \<and>
     map entry_type (history s) = [prompt, tool_call, tool_result] \<and>
     (read_ok e3 \<longrightarrow>
        map_option (map entry_type \<circ> sd_history)
          (loadSession e3 (''session-'' @ dec (now_ms e1)) s) =
          Some [prompt, tool_call, tool_result])"
proof -
  let ?sid = "''session-'' @ dec (now_ms e1)"
  have sid: "sessionId s = Some ?sid"
    unfolding assms(6) by (simp add: sendPrompt_fields new_client_def)
  have mw: "model s = or_default mo ''claude-3-5-sonnet-20241022''"
    "workspaceDir s = or_default w cwd"
    unfolding assms(6) using assms(5)
    by (simp_all add: handleMessage_write sendPrompt_fields new_client_def)
  have h: "history s = [prompt_entry e1 txt,
                        tool_call_entry e2 ''writeTextFile'' (or_else (rpc_params msg) (JObj [])),
                        tool_result_entry e2 ''writeTextFile'']"
    unfolding assms(6) using assms(1,2,5)
    by (simp add: handleMessage_write handleToolCall_history sendPrompt_fields new_client_def)
  have f: "files s (session_path ?sid) =
       Some (JSON_stringify (session_json
         \<lparr>sd_sessionId = ?sid, sd_model = model s,
          sd_workspaceDir = workspaceDir s, sd_timestamp = t_save e2,
          sd_history = history s\<rparr>))"
    using prompt_then_write [OF assms(1-5), of msg e1 "txt" mo w cwd fs, folded assms(6)] mw h
    by simp
  have k: "map entry_type (history s) = [prompt, tool_call, tool_result]"
    unfolding h by (simp add: prompt_entry_def tool_call_entry_def tool_result_entry_def)
  have l: "map_option (map entry_type \<circ> sd_history) (loadSession e3 ?sid s) =
          Some [prompt, tool_call, tool_result]" if "read_ok e3"
    using loadSession_saved [OF f that] k by (simp add: reread_def)
  from sid f k l show ?thesis by blast
qed

theorem prompt_then_write_history_witness:
  "approved demo_env = Inr True \<and> tool_ok (checked (outcome demo_env)) \<and> write_ok demo_env \<and>
   mkdir_ok demo_env \<and> ''writeTextFile'' \<in> set WRITE_FILE \<and> read_ok demo_env \<and>
   sessionId demo_final = Some ''session-1700000000000'' \<and>
   map entry_type (history demo_final) = [prompt, tool_call, tool_result] \<and>
   map_option (map entry_type \<circ> sd_history)
     (loadSession demo_env ''session-1700000000000'' demo_final) =
     Some [prompt, tool_call, tool_result]"
  using prompt_then_write_history [OF demo_ok(1-5) demo_final_unfold, of demo_env] demo_ok
  by (simp add: dec_demo)

text \<open>
  In the exchange of the mock server the persisted history has three entries, so it is not
  the two-entry sequence \<open>prompt\<close>, \<open>tool_result\<close>.
\<close>

theorem two_entries_counterexample:
  "sessionId demo_final = Some ''session-1700000000000'' \<and>
   (\<exists>d. loadSession demo_env ''session-1700000000000'' demo_final = Some d \<and>
        length (sd_history d) = 3 \<and>
        map entry_type (sd_history d) \<noteq> [prompt, tool_result])"
proof -
  have sid: "sessionId demo_final = Some ''session-1700000000000''"
    by (simp add: demo_final_def demo_prompted_fields)
  note f = prompt_then_write [OF demo_ok(1-5), of demo_request demo_env "''hello''" None None
      "''/workspace''" Map.empty, folded demo_final_unfold, unfolded demo_ok(7) dec_demo]
  from loadSession_saved [OF f demo_ok(8)]
  have "\<exists>d. loadSession demo_env ''session-1700000000000'' demo_final = Some d \<and>
        length (sd_history d) = 3 \<and>
        map entry_type (sd_history d) \<noteq> [prompt, tool_result]"
    by (simp add: reread_def prompt_entry_def tool_call_entry_def tool_result_entry_def)
  with sid show ?thesis by simp
qed

section \<open>The session id adopted by the first prompt\<close>

text \<open>
  C3. \<open>sendPrompt\<close> on a client without a session pushes a \<open>session/new\<close>
  request and then the \<open>session/prompt\<close> request, with consecutive ids; \<open>sendRPC\<close>
  returns \<open>null\<close> without reading any reply, so the id adopted is the locally made
  \<open>session-<Date.now()>\<close>, and no message handled later changes it.
\<close>

theorem session_id_is_local:
  assumes "no_session (sessionId s)" and "s' = sendPrompt e txt s"
  shows "outbox s' = outbox s @ [request (requestId s) ''session/new'' (JObj []),
                                request (Suc (requestId s)) ''session/prompt'' (prompt_params txt)] \<and>
     sessionId s' = Some (''session-'' @ dec (now_ms e)) \<and>
     sessionId (fst (handleMessage e' reply s')) = Some (''session-'' @ dec (now_ms e))"
  using assms by (simp add: sendPrompt_fields)

theorem session_id_is_local_witness:
  "no_session (sessionId (startSession demo_client)) \<and>
   map rpc_method (outbox demo_prompted) = [Some ''initialize'', Some ''session/new'', Some ''session/prompt''] \<and>
   sessionId demo_prompted = Some ''session-1700000000000'' \<and>
   sessionId (fst (handleMessage demo_env demo_session_reply demo_prompted)) =
     Some ''session-1700000000000''"
proof -
  have n: "no_session (sessionId (startSession demo_client))"
    by (simp add: demo_client_fields)
  from session_id_is_local [OF n demo_prompted_def, of demo_env demo_session_reply] n
  show ?thesis
    by (simp add: demo_ok(7) dec_demo request_def demo_client_def new_client_def)
qed

text \<open>
  The mock server answers \<open>session/new\<close> with \<open>sessionId: "mock-session-1"\<close>; the client's
  session id is not that value, neither after \<open>sendPrompt\<close> nor after the reply was handled.
\<close>

theorem server_session_id_counterexample:
  "rpc_result demo_session_reply = Some (JObj [(''sessionId'', JStr ''mock-session-1'')]) \<and>
   sessionId demo_prompted \<noteq> Some ''mock-session-1'' \<and>
   sessionId (fst (handleMessage demo_env demo_session_reply demo_prompted)) \<noteq>
     Some ''mock-session-1''"
  by (simp add: demo_session_reply_def demo_prompted_fields)

section \<open>Rejection is not persisted\<close>

text \<open>
  C10. When the operator rejects, \<open>handleToolCall\<close> returns without \<open>persistSession\<close>: the
  session files and the sessions directory are as before, and the history in memory has
  grown by the \<open>tool_call\<close> entry. With auto-save on, a session id set and a working file
  system, the next prompt, or the next approved tool call, writes a session file whose
  history contains that entry.
\<close>

theorem rejection_not_persisted:
  assumes "approved e = Inr False" and "s' = fst (handleToolCall e toolName rid params s)"
  shows "files s' = files s \<and> sessions_dir s' = sessions_dir s \<and>
     history s' = history s @ [tool_call_entry e toolName params] \<and>
     (autoSave s \<and> sessionId s = Some sid \<and> sid \<noteq> [] \<and> write_ok e2 \<and>
      (sessions_dir s \<or> mkdir_ok e2) \<longrightarrow>
        files (sendPrompt e2 txt s') (session_path sid) =
          Some (JSON_stringify (session_json
            \<lparr>sd_sessionId = sid, sd_model = model s, sd_workspaceDir = workspaceDir s,
             sd_timestamp = t_save e2,
             sd_history = history s @ [tool_call_entry e toolName params,
                                       prompt_entry e2 txt]\<rparr>)) \<and>
        (approved e2 = Inr True \<longrightarrow>
           files (fst (handleToolCall e2 t2 rid2 p2 s')) (session_path sid) =
             Some (JSON_stringify (session_json
               \<lparr>sd_sessionId = sid, sd_model = model s, sd_workspaceDir = workspaceDir s,
                sd_timestamp = t_save e2,
                sd_history = history s @ [tool_call_entry e toolName params,
                                          tool_call_entry e2 t2 p2] @
                   (if t2 = ''writeTextFile'' \<and> tool_ok (checked (outcome e2))
                    then [tool_result_entry e2 t2] else [])\<rparr>))))"
proof -
  have s': "s' = sendRPCResponse rid JNull (Some \<lparr>code = - 32000, message = ''User rejected tool call''\<rparr>)
         (logReceipt TOOL_ERROR (logReceipt TOOL_CALL
            (s\<lparr>history := history s @ [tool_call_entry e toolName params]\<rparr>)))"
    using assms by (simp add: handleToolCall_rejected)
  have base: "files s' = files s" "sessions_dir s' = sessions_dir s"
    "history s' = history s @ [tool_call_entry e toolName params]"
    "autoSave s' = autoSave s" "sessionId s' = sessionId s"
    "model s' = model s" "workspaceDir s' = workspaceDir s"
    unfolding s' by (simp_all add: logReceipt_def)
  have later: "files (sendPrompt e2 txt s') (session_path sid) =
          Some (JSON_stringify (session_json
            \<lparr>sd_sessionId = sid, sd_model = model s, sd_workspaceDir = workspaceDir s,
             sd_timestamp = t_save e2,
             sd_history = history s @ [tool_call_entry e toolName params,
                                       prompt_entry e2 txt]\<rparr>)) \<and>
        (approved e2 = Inr True \<longrightarrow>
           files (fst (handleToolCall e2 t2 rid2 p2 s')) (session_path sid) =
             Some (JSON_stringify (session_json
               \<lparr>sd_sessionId = sid, sd_model = model s, sd_workspaceDir = workspaceDir s,
                sd_timestamp = t_save e2,
                sd_history = history s @ [tool_call_entry e toolName params,
                                          tool_call_entry e2 t2 p2] @
                   (if t2 = ''writeTextFile'' \<and> tool_ok (checked (outcome e2))
                    then [tool_result_entry e2 t2] else [])\<rparr>)))"
    if h: "autoSave s" "sessionId s = Some sid" "sid \<noteq> []" "write_ok e2"
      "sessions_dir s \<or> mkdir_ok e2"
  proof
    have "sessionId (sendPrompt e2 txt s') = Some sid"
      using h base by (simp add: sendPrompt_fields)
    then have "files (sendPrompt e2 txt s') (session_path sid) =
       Some (JSON_stringify (session_json
         \<lparr>sd_sessionId = sid, sd_model = model s', sd_workspaceDir = workspaceDir s',
          sd_timestamp = t_save e2, sd_history = history s' @ [prompt_entry e2 txt]\<rparr>))"
      using h base by (intro sendPrompt_persisted) simp_all
    then show "files (sendPrompt e2 txt s') (session_path sid) =
          Some (JSON_stringify (session_json
            \<lparr>sd_sessionId = sid, sd_model = model s, sd_workspaceDir = workspaceDir s,
             sd_timestamp = t_save e2,
             sd_history = history s @ [tool_call_entry e toolName params,
                                       prompt_entry e2 txt]\<rparr>))"
      using base by simp
  next
    show "approved e2 = Inr True \<longrightarrow>
           files (fst (handleToolCall e2 t2 rid2 p2 s')) (session_path sid) =
             Some (JSON_stringify (session_json
               \<lparr>sd_sessionId = sid, sd_model = model s, sd_workspaceDir = workspaceDir s,
                sd_timestamp = t_save e2,
                sd_history = history s @ [tool_call_entry e toolName params,
                                          tool_call_entry e2 t2 p2] @
                   (if t2 = ''writeTextFile'' \<and> tool_ok (checked (outcome e2))
                    then [tool_result_entry e2 t2] else [])\<rparr>))"
    proof
      assume a: "approved e2 = Inr True"
      have "files (fst (handleToolCall e2 t2 rid2 p2 s')) (session_path sid) =
         Some (JSON_stringify (session_json
           \<lparr>sd_sessionId = sid, sd_model = model s', sd_workspaceDir = workspaceDir s',
            sd_timestamp = t_save e2,
            sd_history = history (fst (handleToolCall e2 t2 rid2 p2 s'))\<rparr>))"
        using a h base by (intro handleToolCall_persisted) simp_all
      then show "files (fst (handleToolCall e2 t2 rid2 p2 s')) (session_path sid) =
             Some (JSON_stringify (session_json
               \<lparr>sd_sessionId = sid, sd_model = model s, sd_workspaceDir = workspaceDir s,
                sd_timestamp = t_save e2,
                sd_history = history s @ [tool_call_entry e toolName params,
                                          tool_call_entry e2 t2 p2] @
                   (if t2 = ''writeTextFile'' \<and> tool_ok (checked (outcome e2))
                    then [tool_result_entry e2 t2] else [])\<rparr>))"
        using a base by (simp add: handleToolCall_history)
    qed
  qed
  from base(1-3) later show ?thesis by blast
qed

theorem rejection_not_persisted_witness:
  "approved demo_reject = Inr False \<and> autoSave demo_prompted \<and>
   sessionId demo_prompted = Some ''session-1700000000000'' \<and> write_ok demo_env \<and>
   mkdir_ok demo_env \<and> approved demo_env = Inr True \<and>
   files (fst (handleToolCall demo_reject ''writeTextFile'' (rpc_id demo_request) JNull demo_prompted)) =
     files demo_prompted \<and>
   map_option (map entry_type \<circ> sd_history)
     (loadSession demo_env ''session-1700000000000''
        (sendPrompt demo_env ''again''
           (fst (handleToolCall demo_reject ''writeTextFile'' (rpc_id demo_request) JNull
                   demo_prompted)))) = Some [prompt, tool_call, prompt] \<and>
   map_option (map entry_type \<circ> sd_history)
     (loadSession demo_env ''session-1700000000000''
        (fst (handleToolCall demo_env ''readTextFile'' None JNull
           (fst (handleToolCall demo_reject ''writeTextFile'' (rpc_id demo_request) JNull
                   demo_prompted))))) = Some [prompt, tool_call, tool_call]"
proof -
  have r: "approved demo_reject = Inr False"
    by (simp add: demo_reject_def demo_env_def)
  have pre: "autoSave demo_prompted \<and> sessionId demo_prompted = Some ''session-1700000000000'' \<and>
      ''session-1700000000000'' \<noteq> [] \<and> write_ok demo_env \<and>
      (sessions_dir demo_prompted \<or> mkdir_ok demo_env)"
    by (simp add: demo_prompted_fields demo_env_def)
  have m: "mkdir_ok demo_env" "approved demo_env = Inr True"
    by (simp_all add: demo_env_def)
  let ?s' = "fst (handleToolCall demo_reject ''writeTextFile'' (rpc_id demo_request) JNull demo_prompted)"
  note t = rejection_not_persisted [OF r refl, of "''writeTextFile''" "rpc_id demo_request" JNull
      demo_prompted "''session-1700000000000''" demo_env "''again''" "''readTextFile''" None JNull]
  from t have f: "files ?s' = files demo_prompted"
    by (rule conjunct1)
  note imp = t [THEN conjunct2, THEN conjunct2, THEN conjunct2, rule_format, OF pre]
  note a = imp [THEN conjunct1]
  note b = imp [THEN conjunct2, rule_format, OF m(2)]
  from loadSession_saved [OF a demo_ok(8)]
  have la: "map_option (map entry_type \<circ> sd_history)
     (loadSession demo_env ''session-1700000000000'' (sendPrompt demo_env ''again'' ?s')) =
     Some [prompt, tool_call, prompt]"
    by (simp add: reread_def demo_prompted_fields prompt_entry_def tool_call_entry_def)
  from loadSession_saved [OF b demo_ok(8)]
  have lb: "map_option (map entry_type \<circ> sd_history)
     (loadSession demo_env ''session-1700000000000''
        (fst (handleToolCall demo_env ''readTextFile'' None JNull ?s'))) =
     Some [prompt, tool_call, tool_call]"
    by (simp add: reread_def demo_prompted_fields prompt_entry_def tool_call_entry_def)
  from f la lb r pre m show ?thesis by blast
qed

section \<open>The write queue is drained in order by one drain at a time\<close>

lemma drain_loop_locked:
  "locked s \<Longrightarrow>
     drain_loop q s = s\<lparr>dropped := dropped s @ q, writeQueue := [], isWriting := False\<rparr>"
  by (induction q arbitrary: s) simp_all

lemma ser_inv_idle:
  "ser_inv s \<Longrightarrow> \<not> isWriting s \<Longrightarrow>
     writeQueue s = [] \<and> suspended s = [] \<and> posted s @ dropped s = outbox s \<and>
     (dropped s \<noteq> [] \<longrightarrow> locked s)"
  by (auto simp: ser_inv_def)

lemma ser_inv_busy:
  "ser_inv s \<Longrightarrow> isWriting s \<Longrightarrow>
     (\<exists>m. suspended s = [m]) \<and> locked s \<and> dropped s = [] \<and> posted s @ writeQueue s = outbox s"
  by (cases "suspended s") (auto simp: ser_inv_def)

lemma ser_inv_push_start:
  assumes "ser_inv s" "outbox s' = outbox s @ [m]" "writeQueue s' = writeQueue s @ [m]"
    "posted s' = posted s" "dropped s' = dropped s" "suspended s' = suspended s"
    "isWriting s' = isWriting s" "locked s' = locked s"
  shows "ser_inv (processWriteQueue_start s')"
proof (cases "isWriting s")
  case True
  from ser_inv_busy [OF assms(1) True] obtain x where
    b: "suspended s = [x]" "locked s" "dropped s = []" "posted s @ writeQueue s = outbox s"
    by blast
  have "processWriteQueue_start s' = s'"
    using True assms(7) by (simp add: processWriteQueue_start_def)
  moreover have "ser_inv s'"
    unfolding ser_inv_def using True b assms(2-8) by simp
  ultimately show ?thesis by simp
next
  case False
  from ser_inv_idle [OF assms(1) False] have
    i: "writeQueue s = []" "suspended s = []" "posted s @ dropped s = outbox s"
      "dropped s \<noteq> [] \<longrightarrow> locked s"
    by simp_all
  show ?thesis
  proof (cases "locked s")
    case True
    then have "processWriteQueue_start s' =
        s'\<lparr>isWriting := False, dropped := dropped s @ [m], writeQueue := []\<rparr>"
      using False i assms(2-8) by (simp add: processWriteQueue_start_def drain_loop_locked)
    then show ?thesis
      unfolding ser_inv_def using True i assms(2-8) by simp
  next
    case nl: False
    then have "processWriteQueue_start s' =
        s'\<lparr>isWriting := True, writeQueue := [], locked := True, posted := posted s @ [m],
            suspended := [m]\<rparr>"
      using False i assms(2-8) by (simp add: processWriteQueue_start_def)
    moreover have "dropped s = []"
      using nl i(4) by blast
    ultimately show ?thesis
      unfolding ser_inv_def using i assms(2-8) by simp
  qed
qed

lemma ser_inv_write_settled: "ser_inv s \<Longrightarrow> ser_inv (write_settled ok s)"
proof (cases "suspended s")
  case Nil
  then show "ser_inv s \<Longrightarrow> ser_inv (write_settled ok s)"
    by (simp add: write_settled_def)
next
  case (Cons x rest)
  assume inv: "ser_inv s"
  then have w: "isWriting s"
    using Cons by (simp add: ser_inv_def)
  from ser_inv_busy [OF inv w] Cons have
    b: "rest = []" "locked s" "dropped s = []" "posted s @ writeQueue s = outbox s"
    by simp_all
  show "ser_inv (write_settled ok s)"
  proof (cases ok)
    case True
    show ?thesis
    proof (cases "writeQueue s")
      case Nil
      then have "write_settled ok s = s\<lparr>suspended := [], locked := False, writeQueue := [], isWriting := False\<rparr>"
        using True Cons b by (simp add: write_settled_def)
      then show ?thesis
        unfolding ser_inv_def using Nil b by simp
    next
      case (Cons y q)
      then have "write_settled ok s = s\<lparr>suspended := [y], locked := True, writeQueue := q,
          posted := posted s @ [y]\<rparr>"
        using True \<open>suspended s = x # rest\<close> b by (simp add: write_settled_def)
      then show ?thesis
        unfolding ser_inv_def using Cons b w by simp
    qed
  next
    case False
    then have "write_settled ok s = s\<lparr>suspended := [], dropped := writeQueue s, writeQueue := [],
        isWriting := False\<rparr>"
      using Cons b by (simp add: write_settled_def drain_loop_locked)
    then show ?thesis
      unfolding ser_inv_def using b by simp
  qed
qed

lemma ser_inv_step: "ser_inv s \<Longrightarrow> ser_inv (step ev s)"
proof (cases ev)
  case (SendRPC meth params)
  assume "ser_inv s"
  then have "ser_inv (processWriteQueue_start (enqueue_request meth params s))"
    by (rule ser_inv_push_start) (simp_all add: enqueue_request_def push_def)
  with SendRPC show "ser_inv (step ev s)" by simp
next
  case (SendRPCResponse i res err)
  assume "ser_inv s"
  then have "ser_inv (processWriteQueue_start (enqueue_response i res err s))"
    by (rule ser_inv_push_start) (simp_all add: enqueue_response_def push_def)
  with SendRPCResponse show "ser_inv (step ev s)" by simp
next
  case (WriteSettled ok)
  assume "ser_inv s"
  with WriteSettled show "ser_inv (step ev s)"
    by (simp add: ser_inv_write_settled)
qed

lemma ser_inv_steps: "ser_inv s \<Longrightarrow> ser_inv (steps evs s)"
  by (induction evs arbitrary: s) (simp_all add: ser_inv_step)

lemma ser_inv_new_client: "ser_inv_ok (new_client mo w cwd dir fs)"
  by (simp add: ser_inv_ok_def ser_inv_def new_client_def)

text \<open>Without a failed write nothing is dropped and the lock is held only by the drain.\<close>

lemma ser_inv_ok_push_start:
  assumes "ser_inv_ok s" "outbox s' = outbox s @ [m]" "writeQueue s' = writeQueue s @ [m]"
    "posted s' = posted s" "dropped s' = dropped s" "suspended s' = suspended s"
    "isWriting s' = isWriting s" "locked s' = locked s"
  shows "ser_inv_ok (processWriteQueue_start s')"
proof -
  from assms have inv: "ser_inv (processWriteQueue_start s')"
    by (intro ser_inv_push_start [of s]) (simp_all add: ser_inv_ok_def)
  show ?thesis
  proof (cases "isWriting s")
    case True
    with assms inv show ?thesis
      by (simp add: processWriteQueue_start_def ser_inv_ok_def)
  next
    case False
    with assms have "writeQueue s' = [m]" "\<not> locked s'" "suspended s' = []"
      by (auto simp: ser_inv_ok_def ser_inv_def)
    with False assms inv show ?thesis
      by (simp add: processWriteQueue_start_def ser_inv_ok_def)
  qed
qed

lemma ser_inv_ok_settled: "ser_inv_ok s \<Longrightarrow> ser_inv_ok (write_settled True s)"
proof -
  assume a: "ser_inv_ok s"
  then have inv: "ser_inv (write_settled True s)"
    by (simp add: ser_inv_ok_def ser_inv_write_settled)
  show ?thesis
  proof (cases "suspended s")
    case Nil
    with a show ?thesis by (simp add: write_settled_def)
  next
    case (Cons m rest)
    with a have "rest = []" "dropped s = []"
      by (simp_all add: ser_inv_ok_def ser_inv_def)
    with Cons inv show ?thesis
      by (cases "writeQueue s") (simp_all add: write_settled_def ser_inv_ok_def)
  qed
qed

lemma ser_inv_ok_step: "ser_inv_ok s \<Longrightarrow> no_failure [ev] \<Longrightarrow> ser_inv_ok (step ev s)"
proof (cases ev)
  case (SendRPC meth params)
  assume "ser_inv_ok s"
  then have "ser_inv_ok (processWriteQueue_start (enqueue_request meth params s))"
    by (rule ser_inv_ok_push_start) (simp_all add: enqueue_request_def push_def)
  with SendRPC show "ser_inv_ok (step ev s)" by simp
next
  case (SendRPCResponse i res err)
  assume "ser_inv_ok s"
  then have "ser_inv_ok (processWriteQueue_start (enqueue_response i res err s))"
    by (rule ser_inv_ok_push_start) (simp_all add: enqueue_response_def push_def)
  with SendRPCResponse show "ser_inv_ok (step ev s)" by simp
next
  case (WriteSettled ok)
  assume "ser_inv_ok s" "no_failure [ev]"
  with WriteSettled show "ser_inv_ok (step ev s)"
    by (simp add: ser_inv_ok_settled)
qed

lemma ser_inv_ok_steps: "ser_inv_ok s \<Longrightarrow> no_failure evs \<Longrightarrow> ser_inv_ok (steps evs s)"
proof (induction evs arbitrary: s)
  case Nil
  then show ?case by simp
next
  case (Cons ev evs)
  from Cons.prems have "no_failure [ev]" "no_failure evs"
    by (cases ev; simp)+
  with Cons show ?case by (simp add: ser_inv_ok_step)
qed

lemma complete_drains:
  "ser_inv_ok s \<Longrightarrow>
     ser_inv_ok (complete s) \<and> suspended (complete s) = [] \<and> outbox (complete s) = outbox s"
proof (induction s rule: complete.induct)
  case (1 s)
  show ?case
  proof (cases "suspended s = []")
    case True
    with "1.prems" show ?thesis by (simp add: complete_idle)
  next
    case False
    from "1.prems" have "ser_inv_ok (write_settled True s)"
      by (rule ser_inv_ok_settled)
    with "1.IH" [OF False] False show ?thesis by (simp add: complete_step)
  qed
qed

lemma complete_posted:
  assumes "ser_inv_ok s"
  shows "posted (complete s) = outbox s \<and> writeQueue (complete s) = [] \<and>
         \<not> isWriting (complete s) \<and> dropped (complete s) = []"
  using complete_drains [OF assms] by (auto simp: ser_inv_ok_def ser_inv_def)

lemma outbox_steps: "outbox (steps evs s) = outbox s @ pushed (requestId s) evs"
proof (induction evs arbitrary: s)
  case Nil
  show ?case by simp
next
  case (Cons ev evs)
  show ?case
    by (cases ev) (simp_all add: Cons.IH enqueue_request_def enqueue_response_def push_def)
qed

lemma steps_append: "steps (xs @ ys) s = steps ys (steps xs s)"
  by (induction xs arbitrary: s) simp_all

lemma demo_busy_state:
  "isWriting (steps demo_busy demo_client)"
  "suspended (steps demo_busy demo_client) = [request 0 ''session/new'' (JObj [])]"
  "writeQueue (steps demo_busy demo_client) =
     [response (Some (IdStr ''req_1700000001000'')) (JObj []) None]"
  "locked (steps demo_busy demo_client)"
  by (simp_all add: demo_busy_def demo_client_def new_client_def enqueue_request_def
      enqueue_response_def push_def processWriteQueue_start_def)

lemma demo_events_state:
  "\<not> isWriting (steps demo_events demo_client)"
  by (simp add: demo_events_def steps_append write_settled_def demo_busy_state)

text \<open>
  C5. After any sequence of \<open>sendRPC\<close> calls, \<open>sendRPCResponse\<close> calls and settled writes
  on a new client, the messages handed to the transport, then those dropped at a failed
  write, then those still queued are exactly the messages pushed, in push order: the
  transport receives a prefix of them, each once. If no write failed nothing is dropped, and
  once the drain has been resumed to its end the transport has received every message
  pushed. At most one drain is suspended at any time, \<open>isWriting\<close> holds exactly then, and
  a call made meanwhile only appends its message to the queue.
\<close>

theorem serializer_fifo:
  assumes "s = steps evs (new_client mo w cwd dir fs)"
  shows "posted s @ dropped s @ writeQueue s = pushed 0 evs \<and>
     (no_failure evs \<longrightarrow>
        dropped s = [] \<and> posted s @ writeQueue s = pushed 0 evs \<and>
        posted (complete s) = pushed 0 evs \<and> writeQueue (complete s) = []) \<and>
     length (suspended s) \<le> 1 \<and> isWriting s = (suspended s \<noteq> []) \<and>
     (\<not> isWriting s \<longrightarrow> writeQueue s = []) \<and>
     (isWriting s \<longrightarrow>
        step (SendRPC method params) s = enqueue_request method params s \<and>
        step (SendRPCResponse i res err) s = enqueue_response i res err s \<and>
        suspended (step (SendRPCResponse i res err) s) = suspended s \<and>
        writeQueue (step (SendRPCResponse i res err) s) = writeQueue s @ [response i res err])"
proof -
  let ?c = "new_client mo w cwd dir fs"
  have ob: "outbox s = pushed 0 evs"
    unfolding assms by (simp add: outbox_steps new_client_def)
  have inv: "ser_inv s"
    unfolding assms using ser_inv_new_client [of mo w cwd dir fs]
    by (intro ser_inv_steps) (simp add: ser_inv_ok_def)
  have ok: "ser_inv_ok s" if "no_failure evs"
    unfolding assms using ser_inv_new_client that by (rule ser_inv_ok_steps)
  have a: "posted s @ dropped s @ writeQueue s = pushed 0 evs"
    using inv ob by (simp add: ser_inv_def)
  have b: "dropped s = [] \<and> posted s @ writeQueue s = pushed 0 evs \<and>
        posted (complete s) = pushed 0 evs \<and> writeQueue (complete s) = []" if nf: "no_failure evs"
    using ok [OF nf] complete_posted [OF ok [OF nf]] a ob by (simp add: ser_inv_ok_def)
  have c: "length (suspended s) \<le> 1 \<and> isWriting s = (suspended s \<noteq> []) \<and>
     (\<not> isWriting s \<longrightarrow> writeQueue s = [])"
    using inv by (simp add: ser_inv_def)
  have d: "step (SendRPC method params) s = enqueue_request method params s \<and>
        step (SendRPCResponse i res err) s = enqueue_response i res err s \<and>
        suspended (step (SendRPCResponse i res err) s) = suspended s \<and>
        writeQueue (step (SendRPCResponse i res err) s) = writeQueue s @ [response i res err]"
    if "isWriting s"
    using that by (simp add: processWriteQueue_start_def enqueue_request_def enqueue_response_def push_def)
  from a b c d show ?thesis by blast
qed

theorem serializer_fifo_witness:
  "no_failure demo_busy \<and> isWriting (steps demo_busy demo_client) \<and>
   posted (steps demo_busy demo_client) = [request 0 ''session/new'' (JObj [])] \<and>
   writeQueue (steps demo_busy demo_client) =
     [response (Some (IdStr ''req_1700000001000'')) (JObj []) None] \<and>
   length (suspended (steps demo_busy demo_client)) = 1 \<and>
   step (SendRPCResponse None JNull None) (steps demo_busy demo_client) =
     enqueue_response None JNull None (steps demo_busy demo_client) \<and>
   no_failure demo_events \<and> \<not> isWriting (steps demo_events demo_client) \<and>
   posted (steps demo_events demo_client) =
     [request 0 ''session/new'' (JObj []),
      response (Some (IdStr ''req_1700000001000'')) (JObj []) None] \<and>
   writeQueue (steps demo_events demo_client) = []"
proof -
  have nf: "no_failure demo_busy" "no_failure demo_events"
    by (simp_all add: demo_events_def demo_busy_def)
  have p: "pushed 0 demo_busy = [request 0 ''session/new'' (JObj []),
      response (Some (IdStr ''req_1700000001000'')) (JObj []) None]"
    "pushed 0 demo_events = [request 0 ''session/new'' (JObj []),
      response (Some (IdStr ''req_1700000001000'')) (JObj []) None]"
    by (simp_all add: demo_events_def demo_busy_def)
  note busy = serializer_fifo [of "steps demo_busy demo_client" demo_busy None None "''/workspace''"
      False Map.empty "''m''" JNull None JNull None, unfolded demo_client_def [symmetric], OF refl]
  note fin = serializer_fifo [of "steps demo_events demo_client" demo_events None None "''/workspace''"
      False Map.empty "''m''" JNull None JNull None, unfolded demo_client_def [symmetric], OF refl]
  from busy nf(1) demo_busy_state have b:
    "posted (steps demo_busy demo_client) @ writeQueue (steps demo_busy demo_client) =
       pushed 0 demo_busy"
    "step (SendRPCResponse None JNull None) (steps demo_busy demo_client) =
       enqueue_response None JNull None (steps demo_busy demo_client)"
    by blast+
  from fin nf(2) demo_events_state have d:
    "posted (steps demo_events demo_client) @ writeQueue (steps demo_events demo_client) =
       pushed 0 demo_events"
    "writeQueue (steps demo_events demo_client) = []"
    by blast+
  from b d nf p demo_busy_state demo_events_state show ?thesis
    by simp
qed

section \<open>Request identifiers\<close>

lemma is_request_simps [simp]:
  "is_request (request n m p)" "\<not> is_request (response i res err)"
  by (simp_all add: is_request_def request_def response_def)

lemma rpc_id_request [simp]: "rpc_id (request n m p) = Some (IdNum (int n))"
  by (simp add: request_def)

lemma ids_ok_same:
  "ids_ok s \<Longrightarrow> outbox s' = outbox s \<Longrightarrow> requestId s' = requestId s \<Longrightarrow> ids_ok s'"
  by (simp add: ids_ok_def request_ids_def)

lemma ids_ok_response:
  "ids_ok s \<Longrightarrow> outbox s' = outbox s @ [response i res err] \<Longrightarrow> requestId s' = requestId s \<Longrightarrow>
     ids_ok s'"
  by (simp add: ids_ok_def request_ids_def)

lemma ids_ok_request:
  "ids_ok s \<Longrightarrow> outbox s' = outbox s @ [request (requestId s) m p] \<Longrightarrow>
   requestId s' = Suc (requestId s) \<Longrightarrow> ids_ok s'"
  by (simp add: ids_ok_def request_ids_def ids_upto_def)

lemma ids_ok_new_client: "ids_ok (new_client mo w cwd dir fs)"
  by (simp add: ids_ok_def request_ids_def ids_upto_def new_client_def)

lemma ids_ok_startSession: "ids_ok s \<Longrightarrow> ids_ok (startSession s)"
  by (erule ids_ok_request) simp_all

lemma ids_ok_sendPrompt: "ids_ok s \<Longrightarrow> ids_ok (sendPrompt e t s)"
  by (simp add: ids_ok_def request_ids_def ids_upto_def sendPrompt_fields)

lemma ids_ok_handleMessage: "ids_ok s \<Longrightarrow> ids_ok (fst (handleMessage e msg s))"
  using handleMessage_outbox [of e msg s]
  by (auto intro: ids_ok_same ids_ok_response)

lemma ids_ok_apply_op: "ids_ok s \<Longrightarrow> ids_ok (apply_op x s)"
proof (cases x)
  case StartSession
  then show "ids_ok s \<Longrightarrow> ids_ok (apply_op x s)" by (simp add: ids_ok_startSession)
next
  case (SendPrompt e t)
  then show "ids_ok s \<Longrightarrow> ids_ok (apply_op x s)" by (simp add: ids_ok_sendPrompt)
next
  case (HandleMessage e msg)
  then show "ids_ok s \<Longrightarrow> ids_ok (apply_op x s)" by (simp add: ids_ok_handleMessage)
next
  case (ResumeSession e sid)
  then show "ids_ok s \<Longrightarrow> ids_ok (apply_op x s)"
    by (auto simp: resumeSession_def logReceipt_def ids_ok_def request_ids_def split: option.splits)
next
  case (SetModel m)
  then show "ids_ok s \<Longrightarrow> ids_ok (apply_op x s)"
    by (simp add: setModel_def ids_ok_def request_ids_def)
next
  case (SetWorkspaceDir w)
  then show "ids_ok s \<Longrightarrow> ids_ok (apply_op x s)"
    by (simp add: setWorkspaceDir_def ids_ok_def request_ids_def)
next
  case (SetAutoSave b)
  then show "ids_ok s \<Longrightarrow> ids_ok (apply_op x s)"
    by (simp add: setAutoSave_def ids_ok_def request_ids_def)
qed

lemma ids_ok_run: "ids_ok s \<Longrightarrow> ids_ok (run ops s)"
  by (induction ops arbitrary: s) (simp_all add: ids_ok_apply_op)

lemma ids_ok_step: "ids_ok s \<Longrightarrow> ids_ok (step ev s)"
proof (cases ev)
  case (SendRPC m p)
  then show "ids_ok s \<Longrightarrow> ids_ok (step ev s)"
    by (simp add: ids_ok_def request_ids_def ids_upto_def enqueue_request_def push_def)
next
  case (SendRPCResponse i res err)
  then show "ids_ok s \<Longrightarrow> ids_ok (step ev s)"
    by (simp add: ids_ok_def request_ids_def ids_upto_def enqueue_response_def push_def)
next
  case (WriteSettled ok)
  then show "ids_ok s \<Longrightarrow> ids_ok (step ev s)"
    by (simp add: ids_ok_def request_ids_def)
qed

lemma ids_ok_steps: "ids_ok s \<Longrightarrow> ids_ok (steps evs s)"
  by (induction evs arbitrary: s) (simp_all add: ids_ok_step)

lemma distinct_ids_upto: "distinct (ids_upto n)"
  by (simp add: ids_upto_def distinct_map inj_on_def)

lemma demo_ops_requestId: "requestId (run demo_ops demo_client) = 3"
  by (simp add: demo_ops_def sendPrompt_fields demo_client_fields)

text \<open>
  C7. After any sequence of operations of a new client (and likewise after any sequence of
  serializer events), the ids of the requests pushed by \<open>sendRPC\<close> are, in push order,
  \<open>0, 1, ..., requestId - 1\<close>: they start at 0, increase by one, and none occurs twice.
\<close>

theorem request_ids_increasing:
  "request_ids (run ops (new_client mo w cwd dir fs)) =
     map (\<lambda>k. Some (IdNum (int k))) [0..<requestId (run ops (new_client mo w cwd dir fs))] \<and>
   distinct (request_ids (run ops (new_client mo w cwd dir fs))) \<and>
   request_ids (steps evs (new_client mo w cwd dir fs)) =
     map (\<lambda>k. Some (IdNum (int k))) [0..<requestId (steps evs (new_client mo w cwd dir fs))] \<and>
   distinct (request_ids (steps evs (new_client mo w cwd dir fs)))"
proof -
  have r: "ids_ok (run ops (new_client mo w cwd dir fs))"
    by (rule ids_ok_run) (rule ids_ok_new_client)
  have s: "ids_ok (steps evs (new_client mo w cwd dir fs))"
    by (rule ids_ok_steps) (rule ids_ok_new_client)
  from r s distinct_ids_upto show ?thesis
    by (simp add: ids_ok_def ids_upto_def [symmetric])
qed

theorem request_ids_increasing_witness:
  "request_ids (run demo_ops demo_client) = [Some (IdNum 0), Some (IdNum 1), Some (IdNum 2)] \<and>
   distinct (request_ids (run demo_ops demo_client)) \<and>
   request_ids (steps demo_events demo_client) = [Some (IdNum 0)]"
proof -
  have e: "requestId (steps demo_events demo_client) = 1"
    by (simp add: demo_events_def demo_busy_def enqueue_request_def enqueue_response_def push_def
        demo_client_fields)
  have u: "[0..<3] = [0, 1, 2]" "[0..<1] = [0::nat]"
    by (simp_all add: upt_rec)
  from request_ids_increasing [of demo_ops None None "''/workspace''" False Map.empty demo_events,
      unfolded demo_client_def [symmetric]]
  show ?thesis
    by (simp add: demo_ops_requestId e u)
qed

end
